theory Spec2Isabelle
  imports Main
begin

section \<open>The converter of \<open>pennylane_converter.py\<close>\<close>

text \<open>
  The module translates a PennyLane circuit into a Snowflurry circuit held in the Julia
  session (\<open>Main.sf_circuit\<close>) and dispatches the circuit's measurements to the backend.
  The PennyLane classes and the Julia runtime are external: operations and measurements
  are records of what the module reads from them, backend calls are functions of a
  backend record, and values the module never looks into (amplitude vectors, probability
  distributions, job identifiers, the client) are of an arbitrary type \<open>'v\<close>.
\<close>

subsection \<open>Python values and exceptions\<close>

text \<open>
  The exceptions that leave the module's functions: \<open>str.format\<close> on a missing
  positional argument and \<open>obs.wires[0]\<close> on an empty wire list raise IndexError; the
  read of \<open>op_data\<close> before any assignment raises UnboundLocalError.
\<close>

datatype error = IndexError | UnboundLocalError

text \<open>
  The value stored under \<open>"connected_qubits"\<close> is a Python list; the module compares it
  with an integer. Equal constructors compare by content, a list is never equal to an int.
\<close>

datatype pyval = PyInt int | PyList "int list"

subsection \<open>The operation mapping table\<close>

text \<open>
  A template such as \<open>"rotation_x({1},{0})"\<close> is its literal text with the positional
  slots in between; \<open>NotImplementedError\<close> is the table's sentinel for a recognised gate
  without a template.
\<close>

datatype piece = Lit string | Slot nat

datatype map_entry = Template "piece list" | NotImplementedError

definition SNOWFLURRY_OPERATION_MAP_items :: "(string \<times> map_entry) list" where
  "SNOWFLURRY_OPERATION_MAP_items =
   [(''PauliX'', Template [Lit ''sigma_x('', Slot 0, Lit '')'']),
    (''PauliY'', Template [Lit ''sigma_y('', Slot 0, Lit '')'']),
    (''PauliZ'', Template [Lit ''sigma_z('', Slot 0, Lit '')'']),
    (''Hadamard'', Template [Lit ''hadamard('', Slot 0, Lit '')'']),
    (''CNOT'', Template [Lit ''control_x('', Slot 0, Lit '','', Slot 1, Lit '')'']),
    (''CZ'', Template [Lit ''control_z('', Slot 0, Lit '','', Slot 1, Lit '')'']),
    (''SWAP'', Template [Lit ''swap('', Slot 0, Lit '','', Slot 1, Lit '')'']),
    (''ISWAP'', Template [Lit ''iswap('', Slot 0, Lit '','', Slot 1, Lit '')'']),
    (''RX'', Template [Lit ''rotation_x('', Slot 1, Lit '','', Slot 0, Lit '')'']),
    (''RY'', Template [Lit ''rotation_y('', Slot 1, Lit '','', Slot 0, Lit '')'']),
    (''RZ'', Template [Lit ''rotation_z('', Slot 1, Lit '','', Slot 0, Lit '')'']),
    (''Identity'', Template [Lit ''identity_gate('', Slot 0, Lit '')'']),
    (''CSWAP'', NotImplementedError),
    (''CRX'', Template [Lit ''controlled(rotation_x('', Slot 1, Lit '','', Slot 0,
                        Lit ''),'', Slot 1, Lit '')'']),
    (''CRY'', NotImplementedError),
    (''CRZ'', NotImplementedError),
    (''PhaseShift'', Template [Lit ''phase_shift('', Slot 1, Lit '','', Slot 0, Lit '')'']),
    (''QubitStateVector'', NotImplementedError),
    (''StatePrep'', NotImplementedError),
    (''Toffoli'', Template [Lit ''toffoli('', Slot 0, Lit '','', Slot 1, Lit '','', Slot 2,
                            Lit '')'']),
    (''QubitUnitary'', NotImplementedError),
    (''U1'', NotImplementedError),
    (''U2'', NotImplementedError),
    (''U3'', Template [Lit ''universal('', Slot 3, Lit '','', Slot 0, Lit '','', Slot 1,
                       Lit '','', Slot 2, Lit '')'']),
    (''IsingZZ'', NotImplementedError),
    (''IsingYY'', NotImplementedError),
    (''IsingXX'', NotImplementedError),
    (''T'', Template [Lit ''pi_8('', Slot 0, Lit '')'']),
    (''Rot'', Template [Lit ''rotation('', Slot 3, Lit '','', Slot 0, Lit '','', Slot 1,
                        Lit '')'']),
    (''QubitUnitary'', NotImplementedError),
    (''QFT'', NotImplementedError)]"

text \<open>
  A dict literal keeps the last value of a repeated key (\<open>"QubitUnitary"\<close> occurs twice),
  so the lookup reads the items from the end.
\<close>

definition SNOWFLURRY_OPERATION_MAP :: "string \<Rightarrow> map_entry option" where
  "SNOWFLURRY_OPERATION_MAP = map_of (rev SNOWFLURRY_OPERATION_MAP_items)"

subsection \<open>\<open>str.format\<close>\<close>

text \<open>
  \<open>template.format(*parameters)\<close> replaces slot \<open>{i}\<close> by the \<open>i\<close>-th argument and raises
  IndexError when there is none; arguments without a slot are ignored. The text of an
  argument is left to Python's \<open>str\<close>: the result keeps the argument itself in place.
\<close>

datatype 'a rpiece = Text string | Arg 'a

fun str_format :: "piece list \<Rightarrow> 'a list \<Rightarrow> error + 'a rpiece list" where
  "str_format [] args = Inr []"
| "str_format (Lit s # ps) args =
     (case str_format ps args of Inl e \<Rightarrow> Inl e | Inr r \<Rightarrow> Inr (Text s # r))"
| "str_format (Slot i # ps) args =
     (if i < length args
      then (case str_format ps args of Inl e \<Rightarrow> Inl e | Inr r \<Rightarrow> Inr (Arg (args ! i) # r))
      else Inl IndexError)"

subsection \<open>Source circuit\<close>

text \<open>
  An operation as the module reads it: \<open>op.name\<close>, \<open>op.parameters\<close>, \<open>op.wires.tolist()\<close>
  and whether it is an instance of \<open>StatePrepBase\<close>. The operations are those of
  \<open>map_to_standard_wires()\<close>, which relabels wires and keeps order and classes.
\<close>

record 'p operation =
  name :: string
  parameters :: "'p list"
  wires :: "int list"
  isinstance_StatePrepBase :: bool

text \<open>An argument handed to a template: a gate parameter or a wire index.\<close>

datatype 'p arg = Param 'p | Wire int

text \<open>
  An observable: \<open>obs.wires\<close>, \<open>obs.has_matrix\<close> and \<open>qml.matrix(obs)\<close>.
\<close>

record 'v observable =
  obs_wires :: "int list"
  has_matrix :: bool
  matrix :: 'v

text \<open>
  A measurement process: the five \<open>isinstance\<close> tests \<open>measure\<close> makes, \<open>mp.obs\<close>
  (\<open>None\<close> when absent) and \<open>mp.wires.tolist()\<close>.
\<close>

record 'v measurement =
  isinstance_CountsMP :: bool
  isinstance_SampleMP :: bool
  isinstance_ProbabilityMP :: bool
  isinstance_ExpectationMP :: bool
  isinstance_StateMeasurement :: bool
  obs :: "'v observable option"
  mp_wires :: "int list"

record ('p, 'v) quantum_script =
  operations :: "'p operation list"
  measurements :: "'v measurement list"
  total_shots :: "nat option"

text \<open>
  \<open>circuit.op_wires\<close>: the distinct wires of the operations, each at its first
  appearance (\<open>remdups\<close> keeps the last occurrence, hence the two reversals).
\<close>

definition op_wires :: "('p, 'v) quantum_script \<Rightarrow> int list" where
  "op_wires c = rev (remdups (rev (concat (map wires (operations c)))))"

subsection \<open>Target circuit and the Julia session\<close>

text \<open>
  An instruction object of the backend, as far as the module observes it: \<open>str(inst)\<close>
  and the attributes \<open>connected_qubits\<close> (gates) and \<open>connected_qubit\<close> (readouts);
  \<open>None\<close> is an attribute the object does not have.
\<close>

record inst =
  inst_str :: string
  inst_connected_qubits :: "int list option"
  inst_connected_qubit :: "int option"

record circuit =
  qubit_count :: nat
  bit_count :: nat
  instructions :: "inst list"

text \<open>\<open>QuantumCircuit(qubit_count=n)\<close>: no instruction, as many bits as qubits.\<close>

definition QuantumCircuit :: "nat \<Rightarrow> circuit" where
  "QuantumCircuit n = \<lparr>qubit_count = n, bit_count = n, instructions = []\<rparr>"

text \<open>What the module prints, in order.\<close>

datatype 'v out =
    Print string
  | PrintInstructions "inst list"
  | PrintCircuit circuit
  | PrintObsType
  | PrintCheckingStatus 'v
  | PrintCurrentStatus string

text \<open>The backend calls \<open>measure\<close> makes, in order, with their arguments.\<close>

datatype 'v call =
    SimulateShots circuit nat
  | Simulate circuit
  | GetMeasurementProbabilities circuit "int list option"
  | ExpectedValue 'v 'v
  | SubmitCircuit 'v circuit nat
  | GetStatus 'v
  | GetResult 'v

text \<open>
  The globals of the Julia session the module assigns (\<open>Main.sf_circuit\<close>,
  \<open>Main.currentClient\<close>, \<open>Main.result_state\<close>), the standard output and the log of
  backend calls. The state is one in which \<open>Main.sf_circuit\<close> is bound, as it is after
  \<open>convert_circuit\<close>, the first thing \<open>simulate\<close> does.
\<close>

record 'v main =
  sf_circuit :: circuit
  currentClient :: "'v option"
  result_state :: "'v option"
  stdout :: "'v out list"
  calls :: "'v call list"

text \<open>
  The external functions. \<open>jl_readout q b\<close> is the object \<open>readout(q, b)\<close> evaluates to;
  \<open>get_status job k\<close> is the answer to the \<open>k\<close>-th status request for a job;
  \<open>Main_simulate\<close> is \<open>Main.simulate\<close> (\<open>simulate\<close> below is the converter's method);
  \<open>Eval\<close> is \<open>Main.Eval\<close> of the constructor; \<open>np_astype_int\<close> and \<open>np_array\<close> are the
  two numpy conversions. Each call is taken to return; what the Julia runtime or numpy
  may raise is outside the module.
\<close>

record 'v backend =
  jl_readout :: "int \<Rightarrow> int \<Rightarrow> inst"
  simulate_shots :: "circuit \<Rightarrow> nat \<Rightarrow> string list"
  Main_simulate :: "circuit \<Rightarrow> 'v"
  get_measurement_probabilities :: "circuit \<Rightarrow> int list option \<Rightarrow> 'v"
  expected_value :: "'v \<Rightarrow> 'v \<Rightarrow> 'v"
  submit_circuit :: "'v \<Rightarrow> circuit \<Rightarrow> nat \<Rightarrow> 'v"
  get_status :: "'v \<Rightarrow> nat \<Rightarrow> string"
  get_result :: "'v \<Rightarrow> 'v"
  Eval :: "string \<Rightarrow> 'v"
  np_astype_int :: "string list \<Rightarrow> 'v"
  np_array :: "'v \<Rightarrow> 'v"

text \<open>
  A Python name for a circuit is a reference: the value of \<open>Main.sf_circuit\<close>, which sees
  every later \<open>push!\<close>, or a circuit object of its own (the one \<open>remove_readouts\<close> builds).
\<close>

datatype circuit_ref = MainSfCircuit | Object circuit

definition deref :: "circuit_ref \<Rightarrow> 'v main \<Rightarrow> circuit" where
  "deref r st = (case r of MainSfCircuit \<Rightarrow> sf_circuit st | Object c \<Rightarrow> c)"

text \<open>\<open>push!(sf_circuit, inst)\<close> appends to the instruction sequence of the circuit.\<close>

definition push :: "inst \<Rightarrow> 'v main \<Rightarrow> 'v main" where
  "push i st = st\<lparr>sf_circuit := (sf_circuit st)\<lparr>instructions := instructions (sf_circuit st) @ [i]\<rparr>\<rparr>"

definition print :: "'v out \<Rightarrow> 'v main \<Rightarrow> 'v main" where
  "print x st = st\<lparr>stdout := stdout st @ [x]\<rparr>"

definition log_call :: "'v call \<Rightarrow> 'v main \<Rightarrow> 'v main" where
  "log_call c st = st\<lparr>calls := calls st @ [c]\<rparr>"

subsection \<open>\<open>__init__\<close>\<close>


subsection \<open>\<open>convert_circuit\<close>\<close>

text \<open>
  \<open>jl\<close> is the instruction object Julia builds from the formatted gate expression. The
  loop body: a name with the sentinel prints and continues, a name with a template is
  formatted with \<open>op.parameters + [i + 1 for i in op.wires.tolist()]\<close> and pushed, a name
  that is not a key prints.
\<close>

definition gate_arguments :: "'p operation \<Rightarrow> 'p arg list" where
  "gate_arguments op = map Param (parameters op) @ map (\<lambda>i. Wire (i + 1)) (wires op)"

fun convert_loop :: "('p arg rpiece list \<Rightarrow> inst) \<Rightarrow> 'p operation list \<Rightarrow> 'v main
    \<Rightarrow> (error + unit) \<times> 'v main" where
  "convert_loop jl [] st = (Inr (), st)"
| "convert_loop jl (op # ops) st =
     (case SNOWFLURRY_OPERATION_MAP (name op) of
        Some NotImplementedError \<Rightarrow>
          convert_loop jl ops (print (Print (name op @ '' is not implemented yet, skipping...'')) st)
      | Some (Template t) \<Rightarrow>
          (case str_format t (gate_arguments op) of
             Inl e \<Rightarrow> (Inl e, st)
           | Inr gate \<Rightarrow> convert_loop jl ops (push (jl gate) st))
      | None \<Rightarrow>
          convert_loop jl ops
            (print (Print (name op @ '' is not supported by this device. skipping...'')) st))"

text \<open>
  \<open>len(c) > 0 and isinstance(c[0], StatePrepBase)\<close>: a script indexes its operations
  followed by its measurements, and a measurement is no state preparation.
\<close>

definition has_prep :: "('p, 'v) quantum_script \<Rightarrow> bool" where
  "has_prep c = (length (operations c) + length (measurements c) > 0 \<and>
     (case operations c of [] \<Rightarrow> False | op # _ \<Rightarrow> isinstance_StatePrepBase op))"

definition convert_circuit :: "('p arg rpiece list \<Rightarrow> inst) \<Rightarrow> ('p, 'v) quantum_script \<Rightarrow> 'v main
    \<Rightarrow> (error + circuit_ref \<times> bool) \<times> 'v main" where
  "convert_circuit jl pennylane_circuit st =
     (let wires_nb = length (op_wires pennylane_circuit);
          st1 = st\<lparr>sf_circuit := QuantumCircuit wires_nb\<rparr>;
          prep = has_prep pennylane_circuit
      in case convert_loop jl (drop (if prep then 1 else 0) (operations pennylane_circuit)) st1 of
           (Inl e, st2) \<Rightarrow> (Inl e, st2)
         | (Inr _, st2) \<Rightarrow> (Inr (MainSfCircuit, False), st2))"

subsection \<open>String tests of the introspection\<close>

definition startswith :: "string \<Rightarrow> string \<Rightarrow> bool" where
  "startswith s p = (take (length p) s = p)"

text \<open>\<open>p in s\<close> for strings.\<close>

fun str_in :: "string \<Rightarrow> string \<Rightarrow> bool" where
  "str_in p [] = (p = [])"
| "str_in p (c # cs) = (startswith (c # cs) p \<or> str_in p cs)"

definition newline :: char where
  "newline = CHR 0x0A"

text \<open>
  \<open>re.search(r"Gate Object: (.*)\nConnected_qubits", s)\<close>, group 1: at the leftmost
  \<open>"Gate Object: "\<close> whose line is followed by a line starting with \<open>"Connected_qubits"\<close>,
  the rest of that line (\<open>.\<close> matches no newline, so \<open>.*\<close> ends at the first one).
  \<open>None\<close> is no match.
\<close>

fun re_search_gate_name :: "string \<Rightarrow> string option" where
  "re_search_gate_name [] = None"
| "re_search_gate_name (c # cs) =
     (if startswith (c # cs) ''Gate Object: ''
      then (let rest = drop (length ''Gate Object: '') (c # cs)
            in if startswith (dropWhile (\<lambda>x. x \<noteq> newline) rest) (newline # ''Connected_qubits'')
               then Some (takeWhile (\<lambda>x. x \<noteq> newline) rest)
               else re_search_gate_name cs)
      else re_search_gate_name cs)"

subsection \<open>\<open>get_circuit_as_dictionary\<close>\<close>

record op_data =
  gate :: string
  connected_qubits :: pyval

text \<open>
  The body of the \<open>try\<close> for one instruction, given the binding of \<open>op_data\<close> left by the
  earlier iterations (\<open>None\<close>: not yet assigned). The result says whether the body raised
  (a failed search has no \<open>group\<close>, an object lacks the attribute) and gives the binding
  of \<open>op_data\<close> afterwards. The two tests are two \<open>if\<close>s, not an \<open>if\<close>/\<open>elif\<close>.
\<close>

definition try_parse :: "inst \<Rightarrow> op_data option \<Rightarrow> bool \<times> op_data option" where
  "try_parse i od =
     (let gate_str = inst_str i;
          first = (if str_in ''Gate Object'' gate_str
                   then (case re_search_gate_name gate_str of
                           None \<Rightarrow> None
                         | Some gate_name \<Rightarrow>
                             (case inst_connected_qubits i of
                                None \<Rightarrow> None
                              | Some qs \<Rightarrow>
                                  Some (Some \<lparr>gate = gate_name, connected_qubits = PyList qs\<rparr>)))
                   else Some od)
      in case first of
           None \<Rightarrow> (True, od)
         | Some od1 \<Rightarrow>
             (if str_in ''Readout'' gate_str
              then (case inst_connected_qubit i of
                      None \<Rightarrow> (True, od1)
                    | Some q \<Rightarrow> (False, Some \<lparr>gate = ''Readout'', connected_qubits = PyList [q]\<rparr>))
              else (False, od1)))"

text \<open>
  The loop: the \<open>except\<close> prints, and \<open>ops.append(op_data)\<close> follows the \<open>try\<close> statement
  in every case; it raises UnboundLocalError while \<open>op_data\<close> has never been assigned.
\<close>

fun dictionary_loop :: "inst list \<Rightarrow> op_data option \<Rightarrow> op_data list \<Rightarrow> 'v main
    \<Rightarrow> (error + op_data list) \<times> 'v main" where
  "dictionary_loop [] od ops st = (Inr ops, st)"
| "dictionary_loop (i # is) od ops st =
     (case try_parse i od of
        (raised, od') \<Rightarrow>
          (let st' = (if raised then print (Print (''Error while parsing '' @ inst_str i)) st else st)
           in case od' of
                None \<Rightarrow> (Inl UnboundLocalError, st')
              | Some op_data \<Rightarrow> dictionary_loop is od' (ops @ [op_data]) st'))"

definition get_circuit_as_dictionary :: "'v main \<Rightarrow> (error + op_data list) \<times> 'v main" where
  "get_circuit_as_dictionary st = dictionary_loop (instructions (sf_circuit st)) None [] st"

subsection \<open>Readouts\<close>

definition has_readout :: "'v main \<Rightarrow> (error + bool) \<times> 'v main" where
  "has_readout st =
     (case get_circuit_as_dictionary st of
        (Inl e, st1) \<Rightarrow> (Inl e, st1)
      | (Inr ops, st1) \<Rightarrow> (Inr (list_ex (\<lambda>op. gate op = ''Readout'') ops), st1))"

text \<open>
  \<open>remove_readouts\<close> computes \<open>new_ops\<close> and then builds the new circuit from
  \<open>Main.sf_circuit.instructions\<close>.
\<close>

definition remove_readouts :: "'v main \<Rightarrow> (error + circuit) \<times> 'v main" where
  "remove_readouts st =
     (case get_circuit_as_dictionary st of
        (Inl e, st1) \<Rightarrow> (Inl e, st1)
      | (Inr ops, st1) \<Rightarrow>
          (let new_ops = filter (\<lambda>op. gate op \<noteq> ''Readout'') ops;
               new_circuit = \<lparr>qubit_count = qubit_count (sf_circuit st1),
                              bit_count = bit_count (sf_circuit st1),
                              instructions = instructions (sf_circuit st1)\<rparr>
           in (Inr new_circuit, print (PrintInstructions (instructions new_circuit)) st1)))"

text \<open>
  The search of \<open>apply_single_readout\<close> for a readout already on the wire:
  \<open>op["connected_qubits"] == wire - 1\<close> compares the stored list with an integer.
\<close>

fun readout_found :: "op_data list \<Rightarrow> int \<Rightarrow> bool" where
  "readout_found [] wire = False"
| "readout_found (op # ops) wire =
     (if gate op = ''Readout'' \<and> connected_qubits op = PyInt (wire - 1) then True
      else readout_found ops wire)"

definition apply_single_readout :: "'v backend \<Rightarrow> int \<Rightarrow> 'v main \<Rightarrow> (error + unit) \<times> 'v main" where
  "apply_single_readout bk wire st =
     (case get_circuit_as_dictionary st of
        (Inl e, st1) \<Rightarrow> (Inl e, st1)
      | (Inr ops, st1) \<Rightarrow>
          (if readout_found ops wire then (Inr (), st1)
           else (Inr (), push (jl_readout bk (wire + 1) (wire + 1)) st1)))"

fun push_readouts :: "'v backend \<Rightarrow> nat list \<Rightarrow> 'v main \<Rightarrow> 'v main" where
  "push_readouts bk [] st = st"
| "push_readouts bk (wire # ws) st =
     push_readouts bk ws (push (jl_readout bk (int wire + 1) (int wire + 1)) st)"

definition apply_readouts :: "'v backend \<Rightarrow> nat \<Rightarrow> 'v observable option \<Rightarrow> 'v main
    \<Rightarrow> (error + unit) \<times> 'v main" where
  "apply_readouts bk wires_nb ob st =
     (case ob of
        None \<Rightarrow> (Inr (), push_readouts bk [0..<wires_nb] st)
      | Some o1 \<Rightarrow>
          (case obs_wires o1 of
             [] \<Rightarrow> (Inl IndexError, st)
           | wire # _ \<Rightarrow> apply_single_readout bk wire st))"

subsection \<open>\<open>Counter\<close>\<close>

text \<open>
  \<open>dict(Counter(xs))\<close>: the elements in order of first occurrence, each with the number of
  its occurrences.
\<close>

fun counter_add :: "'a \<Rightarrow> ('a \<times> nat) list \<Rightarrow> ('a \<times> nat) list" where
  "counter_add x [] = [(x, 1)]"
| "counter_add x ((k, n) # kvs) =
     (if k = x then (k, n + 1) # kvs else (k, n) # counter_add x kvs)"

fun count_elements :: "'a list \<Rightarrow> ('a \<times> nat) list \<Rightarrow> ('a \<times> nat) list" where
  "count_elements [] m = m"
| "count_elements (x # xs) m = count_elements xs (counter_add x m)"

definition Counter :: "'a list \<Rightarrow> ('a \<times> nat) list" where
  "Counter xs = count_elements xs []"

subsection \<open>\<open>measure\<close>\<close>

text \<open>
  What \<open>measure\<close> returns: the counts dictionary, a value of the backend or of numpy, or
  the class \<open>NotImplementedError\<close> itself (returned, not raised). \<open>ResultTuple\<close> is the
  tuple \<open>measure_final_state\<close> builds.
\<close>

datatype 'v result =
    CountsDict "(string \<times> nat) list"
  | Value 'v
  | ReturnedNotImplementedError
  | ResultTuple "'v result list"

text \<open>
  The polling loop of the remote path; \<open>k\<close> counts the status requests made so far. The
  loop ends on \<open>"succeeded"\<close>, or on \<open>"failed"\<close> read inside the loop; it need not end.
  (\<open>time.sleep\<close> has no effect on the values.)
\<close>

partial_function (option) poll_status :: "'v backend \<Rightarrow> 'v \<Rightarrow> nat \<Rightarrow> string \<Rightarrow> 'v main
    \<Rightarrow> (string \<times> 'v main) option" where
  "poll_status bk circuitID k status st =
     (if status \<noteq> ''succeeded''
      then (let st1 = print (PrintCheckingStatus circuitID) st;
                status' = get_status bk circuitID k;
                st2 = print (PrintCurrentStatus status') (log_call (GetStatus circuitID) st1)
            in if status' = ''failed'' then Some (status', st2)
               else poll_status bk circuitID (Suc k) status' st2)
      else Some (status, st))"

declare poll_status.simps [code]

text \<open>
  The remote block, the same text in the Counts and the Sample branch: submit, poll,
  and return the job's result on \<open>"succeeded"\<close>. The inner \<open>None\<close> is the block left
  without a \<open>return\<close>; the outer \<open>None\<close> is a loop that never ends.
\<close>

definition remote_job :: "'v backend \<Rightarrow> 'v \<Rightarrow> nat \<Rightarrow> 'v main \<Rightarrow> ('v option \<times> 'v main) option" where
  "remote_job bk client shots st =
     (let circuitID = submit_circuit bk client (sf_circuit st) shots;
          st1 = log_call (SubmitCircuit client (sf_circuit st) shots) st;
          status = get_status bk circuitID 0;
          st2 = log_call (GetStatus circuitID) st1
      in case poll_status bk circuitID 1 status st2 of
           None \<Rightarrow> None
         | Some (status', st3) \<Rightarrow>
             (if status' = ''succeeded''
              then Some (Some (get_result bk circuitID), log_call (GetResult circuitID) st3)
              else Some (None, st3)))"

text \<open>
  \<open>measure\<close> is a sequence of \<open>if isinstance(...)\<close> blocks; a block that does not return
  falls into the next. Each definition below is one block followed by the rest of the
  function.
\<close>

definition measure_StateMeasurement :: "'v backend \<Rightarrow> 'v measurement \<Rightarrow> circuit_ref \<Rightarrow> 'v main
    \<Rightarrow> (error + 'v result) \<times> 'v main" where
  "measure_StateMeasurement bk mp sfc st =
     (if isinstance_StateMeasurement mp
      then (case has_readout st of
              (Inl e, st1) \<Rightarrow> (Inl e, st1)
            | (Inr hr, st1) \<Rightarrow>
                (case (if hr
                       then (case remove_readouts st1 of
                               (Inl e, st2) \<Rightarrow> (Inl e, st2)
                             | (Inr c, st2) \<Rightarrow> (Inr (Object c), st2))
                       else (Inr sfc, st1)) of
                   (Inl e, st2) \<Rightarrow> (Inl e, st2)
                 | (Inr sfc', st2) \<Rightarrow>
                     (let c = deref sfc' st2;
                          v = Main_simulate bk c;
                          st3 = (log_call (Simulate c) st2)\<lparr>result_state := Some v\<rparr>
                      in (Inr (Value (np_array bk v)), st3))))
      else (Inr ReturnedNotImplementedError, st))"

definition measure_ExpectationMP :: "'v backend \<Rightarrow> 'v measurement \<Rightarrow> circuit_ref \<Rightarrow> 'v main
    \<Rightarrow> (error + 'v result) \<times> 'v main" where
  "measure_ExpectationMP bk mp sfc st =
     (if isinstance_ExpectationMP mp
      then (let c = deref sfc st;
                v = Main_simulate bk c;
                st1 = (log_call (Simulate c) st)\<lparr>result_state := Some v\<rparr>
            in case obs mp of
                 None \<Rightarrow> measure_StateMeasurement bk mp sfc st1
               | Some o1 \<Rightarrow>
                   (if has_matrix o1
                    then (Inr (Value (expected_value bk (matrix o1) v)),
                          log_call (ExpectedValue (matrix o1) v) (print PrintObsType st1))
                    else measure_StateMeasurement bk mp sfc st1))
      else measure_StateMeasurement bk mp sfc st)"

definition measure_ProbabilityMP :: "'v backend \<Rightarrow> 'v measurement \<Rightarrow> circuit_ref \<Rightarrow> 'v main
    \<Rightarrow> (error + 'v result) \<times> 'v main" where
  "measure_ProbabilityMP bk mp sfc st =
     (if isinstance_ProbabilityMP mp
      then (let wires_list = mp_wires mp;
                query = (if length wires_list = 0 then None
                         else Some (map (\<lambda>i. i + 1) wires_list))
            in (Inr (Value (get_measurement_probabilities bk (sf_circuit st) query)),
                log_call (GetMeasurementProbabilities (sf_circuit st) query) st))
      else measure_ExpectationMP bk mp sfc st)"

definition measure_SampleMP :: "'v backend \<Rightarrow> nat \<Rightarrow> 'v measurement \<Rightarrow> circuit_ref \<Rightarrow> nat \<Rightarrow> 'v main
    \<Rightarrow> ((error + 'v result) \<times> 'v main) option" where
  "measure_SampleMP bk wires_nb mp sfc shots st =
     (if isinstance_SampleMP mp
      then (case currentClient st of
              None \<Rightarrow>
                (case apply_readouts bk wires_nb (obs mp) st of
                   (Inl e, st1) \<Rightarrow> Some (Inl e, st1)
                 | (Inr _, st1) \<Rightarrow>
                     (let shots_results = simulate_shots bk (sf_circuit st1) shots
                      in Some (Inr (Value (np_astype_int bk shots_results)),
                               log_call (SimulateShots (sf_circuit st1) shots) st1)))
            | Some client \<Rightarrow>
                (case remote_job bk client shots st of
                   None \<Rightarrow> None
                 | Some (Some v, st1) \<Rightarrow> Some (Inr (Value v), st1)
                 | Some (None, st1) \<Rightarrow> Some (measure_ProbabilityMP bk mp sfc st1)))
      else Some (measure_ProbabilityMP bk mp sfc st))"

text \<open>\<open>wires_nb\<close> is \<open>len(self.circuit.op_wires)\<close>.\<close>

definition measure :: "'v backend \<Rightarrow> nat \<Rightarrow> 'v measurement \<Rightarrow> circuit_ref \<Rightarrow> nat \<Rightarrow> 'v main
    \<Rightarrow> ((error + 'v result) \<times> 'v main) option" where
  "measure bk wires_nb mp sfc shots st =
     (if isinstance_CountsMP mp
      then (case currentClient st of
              None \<Rightarrow>
                (case apply_readouts bk wires_nb (obs mp) st of
                   (Inl e, st1) \<Rightarrow> Some (Inl e, st1)
                 | (Inr _, st1) \<Rightarrow>
                     (let shots_results = simulate_shots bk (sf_circuit st1) shots
                      in Some (Inr (CountsDict (Counter shots_results)),
                               log_call (SimulateShots (sf_circuit st1) shots) st1)))
            | Some client \<Rightarrow>
                (case remote_job bk client shots st of
                   None \<Rightarrow> None
                 | Some (Some v, st1) \<Rightarrow> Some (Inr (Value v), st1)
                 | Some (None, st1) \<Rightarrow> measure_SampleMP bk wires_nb mp sfc shots st1))
      else measure_SampleMP bk wires_nb mp sfc shots st)"

subsection \<open>\<open>measure_final_state\<close> and \<open>simulate\<close>\<close>

text \<open>
  The generator \<open>(self.measure(mp, sf_circuit, shots) for mp in circuit.measurements)\<close>
  consumed by \<open>tuple\<close>: the calls run one after the other on the same session, and the
  first exception ends the whole.
\<close>

fun measure_each :: "'v backend \<Rightarrow> nat \<Rightarrow> 'v measurement list \<Rightarrow> circuit_ref \<Rightarrow> nat \<Rightarrow> 'v main
    \<Rightarrow> ((error + 'v result list) \<times> 'v main) option" where
  "measure_each bk wires_nb [] sfc shots st = Some (Inr [], st)"
| "measure_each bk wires_nb (mp # mps) sfc shots st =
     (case measure bk wires_nb mp sfc shots st of
        None \<Rightarrow> None
      | Some (Inl e, st1) \<Rightarrow> Some (Inl e, st1)
      | Some (Inr r, st1) \<Rightarrow>
          (case measure_each bk wires_nb mps sfc shots st1 of
             None \<Rightarrow> None
           | Some (Inl e, st2) \<Rightarrow> Some (Inl e, st2)
           | Some (Inr rs, st2) \<Rightarrow> Some (Inr (r # rs), st2)))"

text \<open>
  \<open>self_circuit\<close> is \<open>self.circuit\<close>, \<open>circuit\<close> the argument (after
  \<open>map_to_standard_wires()\<close>); \<open>is_state_batched\<close> and \<open>rng\<close> are not used by the body.
\<close>

definition measure_final_state :: "'v backend \<Rightarrow> ('p, 'v) quantum_script \<Rightarrow> ('p, 'v) quantum_script
    \<Rightarrow> circuit_ref \<Rightarrow> 'v main \<Rightarrow> ((error + 'v result) \<times> 'v main) option" where
  "measure_final_state bk self_circuit circuit sf_circuit' st =
     (let shots = (case total_shots circuit of None \<Rightarrow> 1 | Some n \<Rightarrow> n);
          wires_nb = length (op_wires self_circuit);
          results =
            (if length (measurements circuit) = 1
             then measure bk wires_nb (measurements circuit ! 0) sf_circuit' shots st
             else (case measure_each bk wires_nb (measurements circuit) sf_circuit' shots st of
                     None \<Rightarrow> None
                   | Some (Inl e, st1) \<Rightarrow> Some (Inl e, st1)
                   | Some (Inr rs, st1) \<Rightarrow> Some (Inr (ResultTuple rs), st1)))
      in case results of
           None \<Rightarrow> None
         | Some (Inl e, st1) \<Rightarrow> Some (Inl e, st1)
         | Some (Inr r, st1) \<Rightarrow> Some (Inr r, print (PrintCircuit (sf_circuit st1)) st1))"

definition simulate :: "'v backend \<Rightarrow> ('p arg rpiece list \<Rightarrow> inst) \<Rightarrow> ('p, 'v) quantum_script
    \<Rightarrow> 'v main \<Rightarrow> ((error + 'v result) \<times> 'v main) option" where
  "simulate bk jl self_circuit st =
     (case convert_circuit jl self_circuit st of
        (Inl e, st1) \<Rightarrow> Some (Inl e, st1)
      | (Inr (sf_circuit', is_state_batched), st1) \<Rightarrow>
          measure_final_state bk self_circuit self_circuit sf_circuit' st1)"

section \<open>Notions used by the properties\<close>

subsection \<open>Translation\<close>

text \<open>The template of a gate name: the table's entry when it is not the sentinel.\<close>

definition template_of :: "string \<Rightarrow> piece list option" where
  "template_of nm =
     (case SNOWFLURRY_OPERATION_MAP nm of Some (Template t) \<Rightarrow> Some t | _ \<Rightarrow> None)"

fun slots :: "piece list \<Rightarrow> nat list" where
  "slots [] = []"
| "slots (Lit s # ps) = slots ps"
| "slots (Slot i # ps) = i # slots ps"

text \<open>
  An operation maps to an implemented template: its name has a template, and the
  operation supplies an argument for every slot of it (as each PennyLane gate does for
  the template under its name).
\<close>

definition translatable :: "'p operation \<Rightarrow> bool" where
  "translatable op =
     (case template_of (name op) of
        None \<Rightarrow> False
      | Some t \<Rightarrow> list_all (\<lambda>i. i < length (gate_arguments op)) (slots t))"

text \<open>The template with each slot replaced by the argument at its position.\<close>

fun fill :: "piece list \<Rightarrow> 'a list \<Rightarrow> 'a rpiece list" where
  "fill [] args = []"
| "fill (Lit s # ps) args = Text s # fill ps args"
| "fill (Slot i # ps) args = Arg (args ! i) # fill ps args"

text \<open>
  The target instruction that corresponds to a source operation: the template of its
  name, filled with its parameters followed by its wires, each wire plus one.
\<close>

definition expected_gate :: "'p operation \<Rightarrow> 'p arg rpiece list" where
  "expected_gate op =
     (case template_of (name op) of
        None \<Rightarrow> []
      | Some t \<Rightarrow> fill t (map Param (parameters op) @ map (\<lambda>i. Wire (i + 1)) (wires op)))"

text \<open>The wire indices that occur in a formatted gate expression.\<close>

fun wires_in :: "'p arg rpiece list \<Rightarrow> int list" where
  "wires_in [] = []"
| "wires_in (Arg (Wire w) # r) = w # wires_in r"
| "wires_in (_ # r) = wires_in r"

text \<open>The line printed for an operation that is not translated.\<close>

definition diagnostic :: "'p operation \<Rightarrow> 'v out" where
  "diagnostic op =
     Print (name op @
       (case SNOWFLURRY_OPERATION_MAP (name op) of
          None \<Rightarrow> '' is not supported by this device. skipping...''
        | Some _ \<Rightarrow> '' is not implemented yet, skipping...''))"

text \<open>The operations the loop of \<open>convert_circuit\<close> goes through.\<close>

definition translated_operations :: "('p, 'v) quantum_script \<Rightarrow> 'p operation list" where
  "translated_operations c = drop (if has_prep c then 1 else 0) (operations c)"

text \<open>A printed line that contains the given text.\<close>

fun mentions :: "string \<Rightarrow> 'v out \<Rightarrow> bool" where
  "mentions nm (Print s) = str_in nm s"
| "mentions nm _ = False"

subsection \<open>Measurement\<close>




text \<open>
  The readouts of a measurement can be applied: without observable always; with one,
  when it has a wire and the introspection of the current circuit returns.
\<close>

definition readouts_applicable :: "'v measurement \<Rightarrow> 'v main \<Rightarrow> bool" where
  "readouts_applicable mp st =
     (case obs mp of
        None \<Rightarrow> True
      | Some o1 \<Rightarrow> obs_wires o1 \<noteq> [] \<and> isl (fst (get_circuit_as_dictionary st)) = False)"

text \<open>The wires a Probabilities measurement asks the backend about.\<close>

definition wires_query :: "'v measurement \<Rightarrow> int list option" where
  "wires_query mp = (if mp_wires mp = [] then None else Some (map (\<lambda>i. i + 1) (mp_wires mp)))"

text \<open>A measurement that none of the five tests of \<open>measure\<close> accepts.\<close>

definition unhandled :: "'v measurement \<Rightarrow> bool" where
  "unhandled mp =
     (\<not> isinstance_CountsMP mp \<and> \<not> isinstance_SampleMP mp \<and> \<not> isinstance_ProbabilityMP mp \<and>
      \<not> isinstance_ExpectationMP mp \<and> \<not> isinstance_StateMeasurement mp)"

text \<open>
  The calls of \<open>measure\<close> for a list of measurements, one after the other: \<open>sts\<close> are
  the sessions before the first call, between the calls and after the last, \<open>rs\<close> the
  values returned.
\<close>

definition measured_in_turn :: "'v backend \<Rightarrow> nat \<Rightarrow> 'v measurement list \<Rightarrow> circuit_ref \<Rightarrow> nat
    \<Rightarrow> 'v main list \<Rightarrow> 'v result list \<Rightarrow> bool" where
  "measured_in_turn bk wires_nb mps sfc shots sts rs =
     (length sts = Suc (length mps) \<and> length rs = length mps \<and>
      list_all (\<lambda>k. measure bk wires_nb (mps ! k) sfc shots (sts ! k) = Some (Inr (rs ! k), sts ! Suc k))
        [0..<length mps])"



subsection \<open>An example session\<close>

text \<open>
  Decimal text of an integer, and instruction objects printed as in the docstring of
  \<open>get_circuit_as_dictionary\<close>.
\<close>

fun str_nat :: "nat \<Rightarrow> string" where
  "str_nat n =
     (if n < 10 then [char_of (48 + n)] else str_nat (n div 10) @ [char_of (48 + n mod 10)])"

declare str_nat.simps [simp del]

definition str_int :: "int \<Rightarrow> string" where
  "str_int i = (if i < 0 then ''-'' @ str_nat (nat (- i)) else str_nat (nat i))"

fun str_ints :: "int list \<Rightarrow> string" where
  "str_ints [] = []"
| "str_ints [i] = str_int i"
| "str_ints (i # is) = str_int i @ '', '' @ str_ints is"

definition example_readout :: "int \<Rightarrow> int \<Rightarrow> inst" where
  "example_readout q b =
     \<lparr>inst_str = ''Explicit Readout object:'' @ [newline] @
                  ''   connected_qubit: '' @ str_int q @ [newline] @
                  ''   destination_bit: '' @ str_int b @ [newline],
      inst_connected_qubits = None,
      inst_connected_qubit = Some q\<rparr>"

definition example_gate :: "string \<Rightarrow> int list \<Rightarrow> inst" where
  "example_gate nm qs =
     \<lparr>inst_str = ''Gate Object: '' @ nm @ [newline] @
                  ''Connected_qubits        : ['' @ str_ints qs @ '']'' @ [newline] @
                  ''Operator:'' @ [newline],
      inst_connected_qubits = Some qs,
      inst_connected_qubit = None\<rparr>"

text \<open>An object whose text carries neither of the two marks.\<close>

definition example_opaque :: inst where
  "example_opaque =
     \<lparr>inst_str = ''Barrier'', inst_connected_qubits = None, inst_connected_qubit = None\<rparr>"

text \<open>
  A stand-in for the Julia evaluation of a gate expression: a gate object named by the
  expression's literal text, connected to the wires that occur in it.
\<close>

fun literal_text :: "'p arg rpiece list \<Rightarrow> string" where
  "literal_text [] = []"
| "literal_text (Text s # r) = s @ literal_text r"
| "literal_text (Arg a # r) = literal_text r"

definition example_jl :: "nat arg rpiece list \<Rightarrow> inst" where
  "example_jl g = example_gate (literal_text g) (wires_in g)"

definition example_backend :: "nat backend" where
  "example_backend =
     \<lparr>jl_readout = example_readout,
      simulate_shots = (\<lambda>c n. map (\<lambda>k. if even k then ''00'' else ''11'') [0..<n]),
      Main_simulate = (\<lambda>c. length (instructions c)),
      get_measurement_probabilities =
        (\<lambda>c q. case q of None \<Rightarrow> qubit_count c | Some ws \<Rightarrow> length ws),
      expected_value = (\<lambda>m s. m + s),
      submit_circuit = (\<lambda>client c shots. 7),
      get_status = (\<lambda>job k. if k < 2 then ''running'' else ''succeeded''),
      get_result = (\<lambda>job. job + 1),
      Eval = length,
      np_astype_int = length,
      np_array = (\<lambda>v. v)\<rparr>"

definition example_main :: "nat main" where
  "example_main =
     \<lparr>sf_circuit = QuantumCircuit 0, currentClient = None, result_state = None,
      stdout = [], calls = []\<rparr>"

definition example_operation :: "string \<Rightarrow> nat list \<Rightarrow> int list \<Rightarrow> nat operation" where
  "example_operation nm ps ws =
     \<lparr>name = nm, parameters = ps, wires = ws, isinstance_StatePrepBase = False\<rparr>"

text \<open>\<open>Hadamard(0); CNOT(0, 1); RX(5, wires=1)\<close>, no measurement.\<close>

definition example_script :: "(nat, nat) quantum_script" where
  "example_script =
     \<lparr>operations = [example_operation ''Hadamard'' [] [0],
                    example_operation ''CNOT'' [] [0, 1],
                    example_operation ''RX'' [5] [1]],
      measurements = [], total_shots = None\<rparr>"

text \<open>\<open>BasisState([1], wires=0); PauliX(0)\<close>: a state preparation, then a supported gate.\<close>

definition basis_state_script :: "(nat, nat) quantum_script" where
  "basis_state_script =
     \<lparr>operations = [\<lparr>name = ''BasisState'', parameters = [1], wires = [0],
                     isinstance_StatePrepBase = True\<rparr>,
                    example_operation ''PauliX'' [] [0]],
      measurements = [], total_shots = None\<rparr>"

text \<open>\<open>S(0); PauliX(0)\<close>: a gate the table does not know, then a supported gate.\<close>

definition unknown_gate_script :: "(nat, nat) quantum_script" where
  "unknown_gate_script =
     \<lparr>operations = [example_operation ''S'' [] [0], example_operation ''PauliX'' [] [0]],
      measurements = [], total_shots = None\<rparr>"

text \<open>One qubit, \<open>hadamard(1)\<close> followed by an object that is neither gate nor readout.\<close>

definition opaque_main :: "nat main" where
  "opaque_main =
     example_main\<lparr>sf_circuit := \<lparr>qubit_count = 1, bit_count = 1,
        instructions = [example_gate ''Snowflurry.Hadamard'' [1], example_opaque]\<rparr>\<rparr>"

text \<open>One qubit, the object that is neither gate nor readout alone.\<close>

definition opaque_first_main :: "nat main" where
  "opaque_first_main =
     example_main\<lparr>sf_circuit := \<lparr>qubit_count = 1, bit_count = 1,
        instructions = [example_opaque]\<rparr>\<rparr>"

text \<open>One qubit, \<open>hadamard(1)\<close> and \<open>readout(1, 1)\<close>.\<close>

definition measured_main :: "nat main" where
  "measured_main =
     example_main\<lparr>sf_circuit := \<lparr>qubit_count = 1, bit_count = 1,
        instructions = [example_gate ''Snowflurry.Hadamard'' [1], example_readout 1 1]\<rparr>\<rparr>"

text \<open>One qubit, no instruction.\<close>

definition fresh_main :: "nat main" where
  "fresh_main = example_main\<lparr>sf_circuit := QuantumCircuit 1\<rparr>"

text \<open>The instructions the introspection takes for readouts.\<close>

definition readouts_of :: "circuit \<Rightarrow> inst list" where
  "readouts_of c = filter (\<lambda>i. str_in ''Readout'' (inst_str i)) (instructions c)"

text \<open>The shot count \<open>measure_final_state\<close> hands to \<open>measure\<close>: one when none is given.\<close>

definition requested_shots :: "('p, 'v) quantum_script \<Rightarrow> nat" where
  "requested_shots c = (case total_shots c of None \<Rightarrow> 1 | Some n \<Rightarrow> n)"

text \<open>Example measurements: \<open>counts()\<close>, \<open>probs(wires=[0])\<close> and one without handler.\<close>

definition counts_mp :: "nat measurement" where
  "counts_mp =
     \<lparr>isinstance_CountsMP = True, isinstance_SampleMP = False, isinstance_ProbabilityMP = False,
      isinstance_ExpectationMP = False, isinstance_StateMeasurement = False,
      obs = None, mp_wires = []\<rparr>"

definition probs_mp :: "nat measurement" where
  "probs_mp =
     \<lparr>isinstance_CountsMP = False, isinstance_SampleMP = False, isinstance_ProbabilityMP = True,
      isinstance_ExpectationMP = False, isinstance_StateMeasurement = False,
      obs = None, mp_wires = [0]\<rparr>"

definition unsupported_mp :: "nat measurement" where
  "unsupported_mp =
     \<lparr>isinstance_CountsMP = False, isinstance_SampleMP = False, isinstance_ProbabilityMP = False,
      isinstance_ExpectationMP = False, isinstance_StateMeasurement = False,
      obs = None, mp_wires = []\<rparr>"

text \<open>\<open>Hadamard(0)\<close> with the given measurements and no shot count.\<close>

definition measured_script :: "nat measurement list \<Rightarrow> (nat, nat) quantum_script" where
  "measured_script mps =
     \<lparr>operations = [example_operation ''Hadamard'' [] [0]], measurements = mps,
      total_shots = None\<rparr>"



text \<open>\<open>CRX(7, wires=[0, 1])\<close>: control wire 0, target wire 1.\<close>

definition crx_operation :: "nat operation" where
  "crx_operation = example_operation ''CRX'' [7] [0, 1]"

definition crx_script :: "(nat, nat) quantum_script" where
  "crx_script = \<lparr>operations = [crx_operation], measurements = [], total_shots = None\<rparr>"

text \<open>A measurement without handler followed by \<open>probs(wires=[0])\<close>.\<close>

definition unsupported_first_script :: "(nat, nat) quantum_script" where
  "unsupported_first_script = measured_script [unsupported_mp, probs_mp]"

section \<open>Properties\<close>

subsection \<open>Translation\<close>

lemma str_format_fill:
  "list_all (\<lambda>i. i < length args) (slots t) \<Longrightarrow> str_format t args = Inr (fill t args)"
  by (induction t args rule: str_format.induct) auto

lemma translatable_step:
  assumes "translatable op"
  shows "\<exists>t. SNOWFLURRY_OPERATION_MAP (name op) = Some (Template t) \<and>
             str_format t (gate_arguments op) = Inr (expected_gate op)"
  using assms
  by (auto simp: translatable_def template_of_def expected_gate_def gate_arguments_def
      str_format_fill split: option.splits map_entry.splits)

lemma untranslated_step:
  assumes "template_of (name op) = None"
  shows "SNOWFLURRY_OPERATION_MAP (name op) = None \<or>
         SNOWFLURRY_OPERATION_MAP (name op) = Some NotImplementedError"
  using assms by (auto simp: template_of_def split: option.splits map_entry.splits)

text \<open>
  The loop, when no operation lacks an argument for its template: the translatable
  operations are pushed in their order, the others leave one printed line each.
\<close>

lemma convert_loop_result:
  assumes "\<forall>op\<in>set ops. template_of (name op) = None \<or> translatable op"
  shows "convert_loop jl ops st =
     (Inr (), st\<lparr>sf_circuit := (sf_circuit st)\<lparr>instructions :=
                     instructions (sf_circuit st) @
                     map (\<lambda>op. jl (expected_gate op)) (filter translatable ops)\<rparr>,
                 stdout := stdout st @ map diagnostic (filter (\<lambda>op. \<not> translatable op) ops)\<rparr>)"
  using assms
proof (induction ops arbitrary: st)
  case Nil
  then show ?case by simp
next
  case (Cons op ops)
  have rest: "\<forall>op\<in>set ops. template_of (name op) = None \<or> translatable op"
    using Cons.prems by simp
  show ?case
  proof (cases "translatable op")
    case True
    then obtain t where t: "SNOWFLURRY_OPERATION_MAP (name op) = Some (Template t)"
      "str_format t (gate_arguments op) = Inr (expected_gate op)"
      using translatable_step by blast
    show ?thesis
      using True t Cons.IH [OF rest] by (simp add: push_def)
  next
    case False
    then have none: "template_of (name op) = None" using Cons.prems by auto
    from untranslated_step [OF none] show ?thesis
      using False Cons.IH [OF rest] by (auto simp: print_def diagnostic_def)
  qed
qed

lemma convert_circuit_result:
  assumes "\<forall>op\<in>set (operations c). template_of (name op) = None \<or> translatable op"
  shows "\<exists>st'. convert_circuit jl c st = (Inr (MainSfCircuit, False), st')
     \<and> instructions (sf_circuit st') =
         map (\<lambda>op. jl (expected_gate op)) (filter translatable (translated_operations c))
     \<and> stdout st' =
         stdout st @ map diagnostic (filter (\<lambda>op. \<not> translatable op) (translated_operations c))"
proof -
  have "\<forall>op\<in>set (translated_operations c). template_of (name op) = None \<or> translatable op"
    using assms by (auto simp: translated_operations_def dest: in_set_dropD)
  from convert_loop_result [OF this]
  have loop: "convert_loop jl (translated_operations c) st1 =
     (Inr (), st1\<lparr>sf_circuit := (sf_circuit st1)\<lparr>instructions :=
                     instructions (sf_circuit st1) @
                     map (\<lambda>op. jl (expected_gate op)) (filter translatable (translated_operations c))\<rparr>,
                 stdout := stdout st1 @
                     map diagnostic (filter (\<lambda>op. \<not> translatable op) (translated_operations c))\<rparr>)"
    for st1 :: "'b main" .
  have "convert_circuit jl c st =
     (case convert_loop jl (translated_operations c)
             (st\<lparr>sf_circuit := QuantumCircuit (length (op_wires c))\<rparr>) of
        (Inl e, st2) \<Rightarrow> (Inl e, st2)
      | (Inr _, st2) \<Rightarrow> (Inr (MainSfCircuit, False), st2))"
    by (simp add: convert_circuit_def translated_operations_def Let_def)
  then show ?thesis
    by (simp add: loop QuantumCircuit_def)
qed

lemma wires_in_fill:
  "list_all (\<lambda>i. i < length ps + length ws) (slots t) \<Longrightarrow>
   set (wires_in (fill t (map Param ps @ map (\<lambda>i. Wire (i + 1)) ws))) \<subseteq> (\<lambda>i. i + 1) ` set ws"
proof (induction t)
  case Nil
  then show ?case by simp
next
  case (Cons p t)
  show ?case
  proof (cases p)
    case (Lit s)
    then show ?thesis using Cons by simp
  next
    case (Slot i)
    let ?args = "map Param ps @ map (\<lambda>i. Wire (i + 1)) ws"
    have i: "i < length ?args" using Cons.prems Slot by simp
    have rest: "set (wires_in (fill t ?args)) \<subseteq> (\<lambda>i. i + 1) ` set ws"
      using Cons Slot by simp
    show ?thesis
    proof (cases "?args ! i")
      case (Param x)
      then show ?thesis using rest Slot by simp
    next
      case (Wire w)
      have "?args ! i \<in> set ?args" using i by (rule nth_mem)
      then have "w \<in> (\<lambda>i. i + 1) ` set ws" using Wire by auto
      then show ?thesis using rest Slot Wire by simp
    qed
  qed
qed

lemma wires_in_expected_gate:
  "translatable op \<Longrightarrow> set (wires_in (expected_gate op)) \<subseteq> (\<lambda>i. i + 1) ` set (wires op)"
  by (auto simp: translatable_def expected_gate_def gate_arguments_def
      split: option.splits dest!: wires_in_fill)

lemma example_lookups:
  "template_of ''Hadamard'' = Some [Lit ''hadamard('', Slot 0, Lit '')'']"
  "template_of ''CNOT'' = Some [Lit ''control_x('', Slot 0, Lit '','', Slot 1, Lit '')'']"
  "template_of ''RX'' = Some [Lit ''rotation_x('', Slot 1, Lit '','', Slot 0, Lit '')'']"
  "template_of ''PauliX'' = Some [Lit ''sigma_x('', Slot 0, Lit '')'']"
  "template_of ''S'' = None"
  "template_of ''BasisState'' = None"
  "SNOWFLURRY_OPERATION_MAP ''S'' = None"
  "SNOWFLURRY_OPERATION_MAP ''BasisState'' = None"
  by (simp_all add: template_of_def SNOWFLURRY_OPERATION_MAP_def SNOWFLURRY_OPERATION_MAP_items_def)

text \<open>
  The order of translation. When every operation of the circuit maps to an implemented
  template, \<open>convert_circuit\<close> returns, prints nothing, and leaves in the target circuit exactly
  the instructions of the operations it goes through (all of them but a leading state
  preparation), one each and in their order. When the first operation is no state
  preparation, the target circuit has as many instructions as the source has operations
  and the \<open>n\<close>-th instruction is the one of the \<open>n\<close>-th operation. Every wire index that
  occurs in an instruction is a wire of its operation plus one; whether every wire of the
  operation occurs is up to the template.
\<close>

lemma convert_circuit_order_preserving:
  assumes "\<forall>op\<in>set (operations c). translatable op"
  shows "\<exists>st'. convert_circuit jl c st = (Inr (MainSfCircuit, False), st')
     \<and> instructions (sf_circuit st') = map (\<lambda>op. jl (expected_gate op)) (translated_operations c)
     \<and> stdout st' = stdout st
     \<and> (\<not> has_prep c \<longrightarrow>
          length (instructions (sf_circuit st')) = length (operations c) \<and>
          (\<forall>n<length (operations c).
             instructions (sf_circuit st') ! n = jl (expected_gate (operations c ! n))))
     \<and> (\<forall>op\<in>set (operations c).
          set (wires_in (expected_gate op)) \<subseteq> (\<lambda>i. i + 1) ` set (wires op))"
proof -
  have all: "\<forall>op\<in>set (translated_operations c). translatable op"
    using assms by (auto simp: translated_operations_def dest: in_set_dropD)
  then have keep: "filter translatable (translated_operations c) = translated_operations c"
    and none: "filter (\<lambda>op. \<not> translatable op) (translated_operations c) = []"
    by (simp_all add: filter_empty_conv)
  have "\<forall>op\<in>set (operations c). template_of (name op) = None \<or> translatable op"
    using assms by simp
  from convert_circuit_result [OF this, of jl st] obtain st' where
    st': "convert_circuit jl c st = (Inr (MainSfCircuit, False), st')"
      "instructions (sf_circuit st') = map (\<lambda>op. jl (expected_gate op)) (translated_operations c)"
      "stdout st' = stdout st"
    using keep none by auto
  have "\<not> has_prep c \<Longrightarrow> translated_operations c = operations c"
    by (simp add: translated_operations_def)
  then have nth: "\<not> has_prep c \<longrightarrow>
          length (instructions (sf_circuit st')) = length (operations c) \<and>
          (\<forall>n<length (operations c).
             instructions (sf_circuit st') ! n = jl (expected_gate (operations c ! n)))"
    using st'(2) by simp
  have "\<forall>op\<in>set (operations c).
          set (wires_in (expected_gate op)) \<subseteq> (\<lambda>i. i + 1) ` set (wires op)"
    using assms wires_in_expected_gate by blast
  with st' nth show ?thesis by blast
qed

text \<open>
  At \<open>Hadamard(0); CNOT(0, 1); RX(5, wires=1)\<close>: three gates, on the wires
  \<open>[1]\<close>, \<open>[1, 2]\<close> and \<open>[2]\<close>.
\<close>

lemma convert_circuit_order_preserving_example:
  "\<exists>st'. convert_circuit example_jl example_script example_main = (Inr (MainSfCircuit, False), st')
     \<and> instructions (sf_circuit st') =
         [example_gate ''hadamard()'' [1], example_gate ''control_x(,)'' [1, 2],
          example_gate ''rotation_x(,)'' [2]]
     \<and> stdout st' = []"
proof -
  have h: "\<forall>op\<in>set (operations example_script). translatable op"
    by (simp add: example_script_def example_operation_def translatable_def gate_arguments_def
        example_lookups)
  have e: "map (\<lambda>op. example_jl (expected_gate op)) (translated_operations example_script) =
         [example_gate ''hadamard()'' [1], example_gate ''control_x(,)'' [1, 2],
          example_gate ''rotation_x(,)'' [2]]"
    by (simp add: example_script_def example_operation_def translated_operations_def has_prep_def
        expected_gate_def example_lookups example_jl_def)
  from convert_circuit_order_preserving [OF h, of example_jl example_main] show ?thesis
    unfolding e by (auto simp: example_main_def)
qed

text \<open>
  Claim C1 fails on the code at \<open>CRX(7, wires=[0, 1])\<close>, an operation that maps to an
  implemented template: the template \<open>"controlled(rotation_x({1},{0}),{1})"\<close> names slot
  1, the control wire, twice and slot 2, the target wire, never. The instruction pushed
  is \<open>controlled(rotation_x(1,7),1)\<close>: its wires are \<open>[1, 1]\<close>, the wires of the
  operation plus one are \<open>[1, 2]\<close>.
\<close>

theorem crx_target_wire_not_named:
  "translatable crx_operation
   \<and> wires crx_operation = [0, 1]
   \<and> fst (convert_circuit example_jl crx_script example_main) = Inr (MainSfCircuit, False)
   \<and> instructions (sf_circuit (snd (convert_circuit example_jl crx_script example_main))) =
       [example_jl [Text ''controlled(rotation_x('', Arg (Wire 1), Text '','', Arg (Param 7),
                    Text ''),'', Arg (Wire 1), Text '')'']]
   \<and> wires_in [Text ''controlled(rotation_x('', Arg (Wire 1), Text '','', Arg (Param 7),
                 Text ''),'', Arg (Wire 1), Text '')''] = [1, 1]
   \<and> map (\<lambda>i. i + 1) (wires crx_operation) = [1, 2]"
  by code_simp

lemma startswith_append: "startswith (p @ s) p"
  by (simp add: startswith_def)

lemma str_in_append: "str_in p (p @ s)"
proof (cases "p @ s")
  case Nil
  then show ?thesis by simp
next
  case (Cons a l)
  have "startswith (p @ s) p" by (simp add: startswith_def)
  then have "str_in p (a # l)" unfolding Cons by simp
  then show ?thesis unfolding Cons .
qed

text \<open>
  Claim C7, as amended. Let the circuit contain an operation \<open>u\<close> whose name is not a
  key of the table and, later, an operation \<open>s\<close> that maps to an implemented template;
  let no operation lack an argument for its template, and let \<open>u\<close> not be a state
  preparation at the head of the circuit. Then \<open>convert_circuit\<close> returns, the
  instruction of \<open>s\<close> is in the target circuit, \<open>u\<close> is not translated (the target holds
  the instructions of the translatable operations only, in order), and the line
  \<open>"<name of u> is not supported by this device. skipping..."\<close> has been printed.
\<close>

theorem unknown_operation_skipped:
  assumes ops: "operations c = pre @ u # mid @ s # post"
    and unknown: "SNOWFLURRY_OPERATION_MAP (name u) = None"
    and supported: "translatable s"
    and args: "\<forall>op\<in>set (operations c). template_of (name op) = None \<or> translatable op"
    and prep: "pre = [] \<longrightarrow> \<not> isinstance_StatePrepBase u"
  shows "\<exists>st'. convert_circuit jl c st = (Inr (MainSfCircuit, False), st')
     \<and> instructions (sf_circuit st') =
         map (\<lambda>op. jl (expected_gate op)) (filter translatable (translated_operations c))
     \<and> jl (expected_gate s) \<in> set (instructions (sf_circuit st'))
     \<and> \<not> translatable u
     \<and> Print (name u @ '' is not supported by this device. skipping...'') \<in> set (stdout st')
     \<and> list_ex (mentions (name u)) (stdout st')"
proof -
  from convert_circuit_result [OF args, of jl st] obtain st' where
    st': "convert_circuit jl c st = (Inr (MainSfCircuit, False), st')"
      "instructions (sf_circuit st') =
         map (\<lambda>op. jl (expected_gate op)) (filter translatable (translated_operations c))"
      "stdout st' =
         stdout st @ map diagnostic (filter (\<lambda>op. \<not> translatable op) (translated_operations c))"
    by blast
  have nu: "\<not> translatable u"
    using unknown by (simp add: translatable_def template_of_def)
  have "\<exists>pre'. translated_operations c = pre' @ u # mid @ s # post"
  proof (cases "has_prep c")
    case False
    then show ?thesis using ops by (auto simp: translated_operations_def)
  next
    case True
    then have "pre \<noteq> []" using ops prep by (auto simp: has_prep_def)
    then obtain p pre' where "pre = p # pre'" by (cases pre) auto
    then show ?thesis using ops True by (auto simp: translated_operations_def)
  qed
  then obtain pre' where tr: "translated_operations c = pre' @ u # mid @ s # post" ..
  have s_in: "s \<in> set (filter translatable (translated_operations c))"
    using tr supported by simp
  have u_in: "u \<in> set (filter (\<lambda>op. \<not> translatable op) (translated_operations c))"
    using tr nu by simp
  have emitted: "jl (expected_gate s) \<in> set (instructions (sf_circuit st'))"
    using s_in st'(2) by auto
  have du: "diagnostic u = (Print (name u @ '' is not supported by this device. skipping...'') :: 'b out)"
    using unknown by (simp add: diagnostic_def)
  have printed: "Print (name u @ '' is not supported by this device. skipping...'') \<in> set (stdout st')"
    using u_in st'(3) du by force
  have "mentions (name u) (Print (name u @ '' is not supported by this device. skipping...'') :: 'b out)"
    by (simp add: str_in_append)
  with printed have "list_ex (mentions (name u)) (stdout st')"
    unfolding list_ex_iff by blast
  with st' emitted nu printed show ?thesis by blast
qed

text \<open>The theorem at \<open>S(0); PauliX(0)\<close>.\<close>

theorem unknown_operation_skipped_witness:
  "\<exists>st'. convert_circuit example_jl unknown_gate_script example_main = (Inr (MainSfCircuit, False), st')
     \<and> instructions (sf_circuit st') = [example_gate ''sigma_x()'' [1]]
     \<and> Print ''S is not supported by this device. skipping...'' \<in> set (stdout st')
     \<and> list_ex (mentions ''S'') (stdout st')"
proof -
  let ?u = "example_operation ''S'' [] [0] :: nat operation"
  let ?s = "example_operation ''PauliX'' [] [0] :: nat operation"
  have tu: "\<not> translatable ?u" and ts: "translatable ?s"
    by (simp_all add: example_operation_def translatable_def gate_arguments_def example_lookups)
  have ops: "operations unknown_gate_script = [] @ ?u # [] @ ?s # []"
    by (simp add: unknown_gate_script_def)
  have unknown: "SNOWFLURRY_OPERATION_MAP (name ?u) = None"
    by (simp add: example_operation_def example_lookups)
  have args: "\<forall>op\<in>set (operations unknown_gate_script). template_of (name op) = None \<or> translatable op"
    using ts by (simp add: unknown_gate_script_def example_operation_def example_lookups)
  have prep: "([]::nat operation list) = [] \<longrightarrow> \<not> isinstance_StatePrepBase ?u"
    by (simp add: example_operation_def)
  have tr: "filter translatable (translated_operations unknown_gate_script) = [?s]"
    using tu ts by (simp add: translated_operations_def has_prep_def unknown_gate_script_def
        example_operation_def)
  have e: "example_jl (expected_gate ?s) = example_gate ''sigma_x()'' [1]"
    by (simp add: example_operation_def expected_gate_def example_lookups example_jl_def)
  have n: "name ?u = ''S''" by (simp add: example_operation_def)
  from unknown_operation_skipped [OF ops unknown ts args prep, of example_jl example_main]
  show ?thesis
    unfolding tr n by (auto simp: e)
qed

text \<open>
  Claim C7 as stated fails at \<open>BasisState([1], wires=0); PauliX(0)\<close>: the name
  \<open>"BasisState"\<close> is not a key of the table, the state preparation at the head of the
  circuit is left out of the loop, and nothing is printed.
\<close>

theorem state_preparation_dropped_silently:
  "SNOWFLURRY_OPERATION_MAP ''BasisState'' = None
   \<and> translatable (example_operation ''PauliX'' [] [0] :: nat operation) 
   \<and> fst (convert_circuit example_jl basis_state_script example_main) = Inr (MainSfCircuit, False)
   \<and> instructions (sf_circuit (snd (convert_circuit example_jl basis_state_script example_main)))
       = [example_gate ''sigma_x()'' [1]]
   \<and> stdout (snd (convert_circuit example_jl basis_state_script example_main)) = []
   \<and> \<not> list_ex (mentions ''BasisState'')
         (stdout (snd (convert_circuit example_jl basis_state_script example_main)))"
proof -
  have "convert_circuit example_jl basis_state_script example_main =
    (Inr (MainSfCircuit, False),
     example_main\<lparr>sf_circuit := \<lparr>qubit_count = 1, bit_count = 1,
                                  instructions = [example_gate ''sigma_x()'' [1]]\<rparr>\<rparr>)"
    by (simp add: convert_circuit_def basis_state_script_def has_prep_def example_operation_def
        op_wires_def QuantumCircuit_def Let_def example_lookups template_of_def
        SNOWFLURRY_OPERATION_MAP_def SNOWFLURRY_OPERATION_MAP_items_def gate_arguments_def
        push_def example_jl_def example_main_def)
  then show ?thesis
     by (simp add: example_lookups translatable_def example_operation_def gate_arguments_def example_main_def)
qed

subsection \<open>Introspection and readouts\<close>

text \<open>
  Claim C9 fails on the code. For an instruction whose text has neither mark, neither
  \<open>if\<close> of the \<open>try\<close> assigns \<open>op_data\<close> and nothing is raised or printed; the
  \<open>append\<close> after the \<open>try\<close> then adds the dictionary of the previous instruction a
  second time. When such an instruction comes first, the \<open>append\<close> raises
  UnboundLocalError.
\<close>

theorem unclassified_instruction_appends_stale_data:
  "get_circuit_as_dictionary opaque_main =
     (Inr [\<lparr>gate = ''Snowflurry.Hadamard'', connected_qubits = PyList [1]\<rparr>,
           \<lparr>gate = ''Snowflurry.Hadamard'', connected_qubits = PyList [1]\<rparr>], opaque_main)
   \<and> get_circuit_as_dictionary opaque_first_main = (Inl UnboundLocalError, opaque_first_main)"
  by code_simp

text \<open>
  Claim C2 fails on the code. \<open>remove_readouts\<close> on the circuit \<open>hadamard(1)\<close>,
  \<open>readout(1, 1)\<close> returns a circuit with the same two instructions: the readout is
  still there.
\<close>

theorem remove_readouts_keeps_readouts:
  "fst (remove_readouts measured_main) =
     Inr \<lparr>qubit_count = 1, bit_count = 1,
          instructions = [example_gate ''Snowflurry.Hadamard'' [1], example_readout 1 1]\<rparr>
   \<and> readouts_of \<lparr>qubit_count = 1, bit_count = 1,
          instructions = [example_gate ''Snowflurry.Hadamard'' [1], example_readout 1 1]\<rparr>
       = [example_readout 1 1]"
  by code_simp

text \<open>
  Claim C3 fails on the code. Two calls of \<open>apply_single_readout\<close> for wire 0 on an
  empty one-qubit circuit both return and leave two readouts of qubit 1: the search
  compares the list \<open>[1]\<close> with the integer \<open>-1\<close>.
\<close>

theorem apply_single_readout_twice_pushes_twice:
  "fst (apply_single_readout example_backend 0 fresh_main) = Inr ()
   \<and> fst (apply_single_readout example_backend 0
            (snd (apply_single_readout example_backend 0 fresh_main))) = Inr ()
   \<and> readouts_of (sf_circuit (snd (apply_single_readout example_backend 0
            (snd (apply_single_readout example_backend 0 fresh_main)))))
       = [example_readout 1 1, example_readout 1 1]"
  by code_simp

subsection \<open>\<open>Counter\<close>, and what the readout operations leave unchanged\<close>

lemma Counter_sum_aux: "sum_list (map snd (counter_add x m)) = Suc (sum_list (map snd m))"
  by (induction x m rule: counter_add.induct) auto

lemma count_elements_sum:
  "sum_list (map snd (count_elements xs m)) = length xs + sum_list (map snd m)"
  by (induction xs arbitrary: m) (auto simp: Counter_sum_aux)

lemma Counter_sum: "sum_list (map snd (Counter xs)) = length xs"
  by (simp add: Counter_def count_elements_sum)

lemma counter_add_keys: "fst ` set (counter_add x m) = insert x (fst ` set m)"
  by (induction x m rule: counter_add.induct) auto

lemma counter_add_distinct: "distinct (map fst m) \<Longrightarrow> distinct (map fst (counter_add x m))"
proof (induction x m rule: counter_add.induct)
  case (1 x)
  then show ?case by simp
next
  case (2 x k n kvs)
  then show ?case using counter_add_keys [of x kvs] by auto
qed

lemma count_elements_distinct:
  "distinct (map fst m) \<Longrightarrow> distinct (map fst (count_elements xs m))"
  by (induction xs arbitrary: m) (auto simp: counter_add_distinct)

lemma count_elements_keys: "fst ` set (count_elements xs m) = set xs \<union> fst ` set m"
  by (induction xs arbitrary: m) (simp_all add: counter_add_keys)

lemma Counter_distinct: "distinct (map fst (Counter xs))"
  by (simp add: Counter_def count_elements_distinct)

lemma Counter_keys: "fst ` set (Counter xs) = set xs"
  by (simp add: Counter_def count_elements_keys)

lemma dictionary_loop_frame:
  "dictionary_loop is od ops st = (r, st') \<Longrightarrow>
   sf_circuit st' = sf_circuit st \<and> currentClient st' = currentClient st \<and> calls st' = calls st
   \<and> result_state st' = result_state st"
proof (induction "is" arbitrary: od ops st)
  case Nil
  then show ?case by auto
next
  case (Cons i "is")
  obtain raised od' where tp: "try_parse i od = (raised, od')" by (cases "try_parse i od")
  let ?st = "if raised then print (Print (''Error while parsing '' @ inst_str i)) st else st"
  have fr: "sf_circuit ?st = sf_circuit st \<and> currentClient ?st = currentClient st
      \<and> calls ?st = calls st \<and> result_state ?st = result_state st"
    by (simp add: print_def)
  show ?case
  proof (cases od')
    case None
    then show ?thesis using Cons.prems tp fr by (auto simp: Let_def)
  next
    case (Some d)
    then have "dictionary_loop is od' (ops @ [d]) ?st = (r, st')"
      using Cons.prems tp by (simp add: Let_def)
    from Cons.IH [OF this] fr show ?thesis by simp
  qed
qed

lemma get_circuit_as_dictionary_frame:
  "get_circuit_as_dictionary st = (r, st') \<Longrightarrow>
   sf_circuit st' = sf_circuit st \<and> currentClient st' = currentClient st \<and> calls st' = calls st
   \<and> result_state st' = result_state st"
  unfolding get_circuit_as_dictionary_def by (rule dictionary_loop_frame)





subsection \<open>Counts\<close>

lemma map_of_counter_add:
  "map_of (counter_add x m) k =
     (if k = x then Some (case map_of m x of None \<Rightarrow> 1 | Some n \<Rightarrow> n + 1) else map_of m k)"
  by (induction x m rule: counter_add.induct) auto

lemma map_of_count_elements:
  "map_of (count_elements xs m) k =
     (case map_of m k of
        None \<Rightarrow> (if k \<in> set xs then Some (count_list xs k) else None)
      | Some n \<Rightarrow> Some (n + count_list xs k))"
proof (induction xs arbitrary: m)
  case Nil
  then show ?case by (simp split: option.splits)
next
  case (Cons x xs)
  show ?case
    by (simp add: Cons.IH map_of_counter_add split: option.splits)
qed

lemma map_of_Counter:
  "map_of (Counter xs) k = (if k \<in> set xs then Some (count_list xs k) else None)"
  by (simp add: Counter_def map_of_count_elements)

lemma local_counts:
  assumes "isinstance_CountsMP mp" and "currentClient st = None"
  shows "measure bk wires_nb mp sfc shots st =
     (case apply_readouts bk wires_nb (obs mp) st of
        (Inl e, st1) \<Rightarrow> Some (Inl e, st1)
      | (Inr _, st1) \<Rightarrow>
          Some (Inr (CountsDict (Counter (simulate_shots bk (sf_circuit st1) shots))),
                log_call (SimulateShots (sf_circuit st1) shots) st1))"
  using assms by (simp add: measure_def Let_def split: prod.splits sum.splits)

lemma apply_readouts_applicable:
  assumes "readouts_applicable mp st"
  shows "\<exists>st1. apply_readouts bk wires_nb (obs mp) st = (Inr (), st1)"
proof (cases "obs mp")
  case None
  then show ?thesis by (simp add: apply_readouts_def)
next
  case (Some o1)
  then obtain w ws where w: "obs_wires o1 = w # ws"
    using assms by (cases "obs_wires o1") (auto simp: readouts_applicable_def)
  obtain r0 st0 where g: "get_circuit_as_dictionary st = (r0, st0)"
    by (cases "get_circuit_as_dictionary st")
  then have "\<not> isl r0" using assms Some by (simp add: readouts_applicable_def)
  then obtain ops where "r0 = Inr ops" by (cases r0) auto
  then show ?thesis
    using Some w g by (simp add: apply_readouts_def apply_single_readout_def)
qed

text \<open>
  Claim C4. For a Counts measurement on the local path and a backend whose shot
  execution returns one outcome per shot: \<open>measure\<close> ends; whatever it returns is the
  frequency mapping of the outcomes of the shot execution on the current circuit, with
  one key per observed outcome, each with its number of occurrences, and the values sum
  to \<open>shots\<close>; and it does return whenever the readouts can be applied (always, when the
  measurement has no observable).
\<close>

theorem counts_sum_to_shots:
  assumes counts: "isinstance_CountsMP mp"
    and local: "currentClient st = None"
    and backend: "\<forall>c. length (simulate_shots bk c shots) = shots"
  shows "measure bk wires_nb mp sfc shots st \<noteq> None
     \<and> (\<forall>r st'. measure bk wires_nb mp sfc shots st = Some (Inr r, st') \<longrightarrow>
           (\<exists>m. r = CountsDict m \<and> m = Counter (simulate_shots bk (sf_circuit st') shots)
              \<and> sum_list (map snd m) = shots \<and> distinct (map fst m)
              \<and> (\<forall>k. map_of m k =
                    (if k \<in> set (simulate_shots bk (sf_circuit st') shots)
                     then Some (count_list (simulate_shots bk (sf_circuit st') shots) k)
                     else None))))
     \<and> (readouts_applicable mp st \<longrightarrow>
           (\<exists>m st'. measure bk wires_nb mp sfc shots st = Some (Inr (CountsDict m), st')))"
proof -
  note m = local_counts [OF counts local, of bk wires_nb sfc shots]
  obtain r1 st1 where a: "apply_readouts bk wires_nb (obs mp) st = (r1, st1)"
    by (cases "apply_readouts bk wires_nb (obs mp) st")
  have 1: "measure bk wires_nb mp sfc shots st \<noteq> None"
    using m a by (cases r1) auto
  have 2: "\<exists>m. r = CountsDict m \<and> m = Counter (simulate_shots bk (sf_circuit st') shots)
              \<and> sum_list (map snd m) = shots \<and> distinct (map fst m)
              \<and> (\<forall>k. map_of m k =
                    (if k \<in> set (simulate_shots bk (sf_circuit st') shots)
                     then Some (count_list (simulate_shots bk (sf_circuit st') shots) k)
                     else None))"
    if "measure bk wires_nb mp sfc shots st = Some (Inr r, st')" for r st'
  proof -
    from that m a have r: "r = CountsDict (Counter (simulate_shots bk (sf_circuit st1) shots))"
      and st': "st' = log_call (SimulateShots (sf_circuit st1) shots) st1"
      by (cases r1; simp)+
    have "sf_circuit st' = sf_circuit st1" using st' by (simp add: log_call_def)
    then show ?thesis
      using r backend by (simp add: Counter_sum Counter_distinct map_of_Counter)
  qed
  have 3: "\<exists>m st'. measure bk wires_nb mp sfc shots st = Some (Inr (CountsDict m), st')"
    if "readouts_applicable mp st"
  proof -
    from apply_readouts_applicable [OF that, of bk wires_nb] obtain st2
      where "apply_readouts bk wires_nb (obs mp) st = (Inr (), st2)" ..
    then show ?thesis using m by simp
  qed
  from 1 2 3 show ?thesis by blast
qed

text \<open>The theorem at \<open>counts()\<close> with four shots on an empty one-qubit circuit.\<close>

theorem counts_sum_to_shots_witness:
  "\<exists>m st'. measure example_backend 1 counts_mp MainSfCircuit 4 fresh_main
              = Some (Inr (CountsDict m), st')
     \<and> sum_list (map snd m) = 4 \<and> map_of m ''00'' = Some 2 \<and> map_of m ''11'' = Some 2"
proof -
  have c: "isinstance_CountsMP counts_mp" by (simp add: counts_mp_def)
  have l: "currentClient fresh_main = None" by (simp add: fresh_main_def example_main_def)
  have b: "\<forall>c. length (simulate_shots example_backend c 4) = 4"
    by (simp add: example_backend_def)
  have a: "readouts_applicable counts_mp fresh_main"
    by (simp add: readouts_applicable_def counts_mp_def)
  have s: "simulate_shots example_backend c 4 = [''00'', ''11'', ''00'', ''11'']" for c
    by (simp add: example_backend_def upt_rec)
  from counts_sum_to_shots [OF c l b, where wires_nb = 1 and sfc = MainSfCircuit] a
  obtain m st' where
    m: "measure example_backend 1 counts_mp MainSfCircuit 4 fresh_main = Some (Inr (CountsDict m), st')"
    by blast
  with counts_sum_to_shots [OF c l b, where wires_nb = 1 and sfc = MainSfCircuit]
  have "sum_list (map snd m) = 4 \<and> map_of m ''00'' = Some 2 \<and> map_of m ''11'' = Some 2"
    by (auto simp: s)
  with m show ?thesis by blast
qed

subsection \<open>Probabilities\<close>

text \<open>
  Claim C6. For a measurement that is a ProbabilityMP (and neither a CountsMP nor a
  SampleMP, whose blocks come first), \<open>measure\<close> returns the backend's answer to one
  query, about the current circuit and all wires when the measurement's wire list is
  empty, else about the wires of the list plus one each. The target circuit, the client
  and the output are as before; the query is the only backend call.
\<close>

theorem probabilities_leave_circuit:
  assumes "isinstance_ProbabilityMP mp"
    and "\<not> isinstance_CountsMP mp" and "\<not> isinstance_SampleMP mp"
  shows "\<exists>st'. measure bk wires_nb mp sfc shots st =
            Some (Inr (Value (get_measurement_probabilities bk (sf_circuit st) (wires_query mp))), st')
     \<and> sf_circuit st' = sf_circuit st
     \<and> instructions (sf_circuit st') = instructions (sf_circuit st)
     \<and> calls st' = calls st @ [GetMeasurementProbabilities (sf_circuit st) (wires_query mp)]
     \<and> stdout st' = stdout st \<and> currentClient st' = currentClient st
     \<and> wires_query mp = (if mp_wires mp = [] then None else Some (map (\<lambda>i. i + 1) (mp_wires mp)))"
  using assms
  by (simp add: measure_def measure_SampleMP_def measure_ProbabilityMP_def wires_query_def
      log_call_def Let_def)

text \<open>The theorem at \<open>probs(wires=[0])\<close> on the circuit \<open>hadamard(1)\<close>, \<open>readout(1, 1)\<close>.\<close>

theorem probabilities_leave_circuit_witness:
  "\<exists>st'. measure example_backend 1 probs_mp MainSfCircuit 1 measured_main = Some (Inr (Value 1), st')
     \<and> sf_circuit st' = sf_circuit measured_main
     \<and> calls st' = [GetMeasurementProbabilities (sf_circuit measured_main) (Some [1])]"
proof -
  have h: "isinstance_ProbabilityMP probs_mp" "\<not> isinstance_CountsMP probs_mp"
    "\<not> isinstance_SampleMP probs_mp"
    by (simp_all add: probs_mp_def)
  have q: "wires_query probs_mp = Some [1]" by (simp add: wires_query_def probs_mp_def)
  have v: "get_measurement_probabilities example_backend c (Some [1]) = 1" for c
    by (simp add: example_backend_def)
  have c: "calls measured_main = []" by (simp add: measured_main_def example_main_def)
  from probabilities_leave_circuit [OF h, of example_backend 1 MainSfCircuit 1 measured_main]
  show ?thesis unfolding q v c by auto
qed

subsection \<open>Further facts about the introspection\<close>

text \<open>Every iteration of the loop that does not raise appends one dictionary.\<close>

lemma dictionary_loop_length:
  "dictionary_loop is od ops st = (Inr ops', st') \<Longrightarrow> length ops' = length ops + length is"
proof (induction "is" arbitrary: od ops st)
  case Nil
  then show ?case by simp
next
  case (Cons i "is")
  obtain raised od' where tp: "try_parse i od = (raised, od')" by (cases "try_parse i od")
  with Cons.prems obtain d where d: "od' = Some d" by (cases od') (auto simp: Let_def)
  let ?st = "if raised then print (Print (''Error while parsing '' @ inst_str i)) st else st"
  have "dictionary_loop is od' (ops @ [d]) ?st = (Inr ops', st')"
    using Cons.prems tp d by (simp add: Let_def)
  from Cons.IH [OF this] show ?case by simp
qed





text \<open>
  Whenever \<open>remove_readouts\<close> returns, the circuit it returns has the counts and the
  instructions of the current one, readouts included.
\<close>

lemma remove_readouts_same_circuit:
  assumes "remove_readouts st = (Inr c, st')"
  shows "instructions c = instructions (sf_circuit st) \<and>
         qubit_count c = qubit_count (sf_circuit st) \<and> bit_count c = bit_count (sf_circuit st)"
proof -
  obtain r0 st0 where g: "get_circuit_as_dictionary st = (r0, st0)"
    by (cases "get_circuit_as_dictionary st")
  with assms obtain ops where r0: "r0 = Inr ops"
    by (cases r0) (auto simp: remove_readouts_def)
  then have "instructions c = instructions (sf_circuit st0) \<and>
         qubit_count c = qubit_count (sf_circuit st0) \<and> bit_count c = bit_count (sf_circuit st0)"
    using assms g by (auto simp: remove_readouts_def Let_def)
  then show ?thesis using get_circuit_as_dictionary_frame [OF g] by simp
qed

subsection \<open>Local and remote path\<close>






























subsection \<open>Several measurements\<close>

lemma measured_in_turn_iff:
  "measured_in_turn bk n mps sfc shots sts rs =
     (length sts = Suc (length mps) \<and> length rs = length mps \<and>
      (\<forall>k<length mps.
         measure bk n (mps ! k) sfc shots (sts ! k) = Some (Inr (rs ! k), sts ! Suc k)))"
  by (auto simp: measured_in_turn_def list_all_iff)

lemma measured_in_turn_Nil:
  "measured_in_turn bk n [] sfc shots sts rs = (length sts = 1 \<and> rs = [])"
  by (auto simp: measured_in_turn_iff)

lemma measured_in_turn_Cons:
  "measured_in_turn bk n (mp # mps) sfc shots sts rs =
     (\<exists>s sts' r rs'. sts = s # sts' \<and> rs = r # rs' \<and> sts' \<noteq> [] \<and>
        measure bk n mp sfc shots s = Some (Inr r, sts' ! 0) \<and>
        measured_in_turn bk n mps sfc shots sts' rs')"
proof
  assume a: "measured_in_turn bk n (mp # mps) sfc shots sts rs"
  then obtain s sts' where sts: "sts = s # sts'" "length sts' = Suc (length mps)"
    by (cases sts) (auto simp: measured_in_turn_iff)
  from a obtain r rs' where rs: "rs = r # rs'" "length rs' = length mps"
    by (cases rs) (auto simp: measured_in_turn_iff)
  from a have all: "\<forall>k<Suc (length mps).
      measure bk n ((mp # mps) ! k) sfc shots (sts ! k) = Some (Inr (rs ! k), sts ! Suc k)"
    by (simp add: measured_in_turn_iff)
  then have 0: "measure bk n mp sfc shots s = Some (Inr r, sts' ! 0)"
    using sts rs by force
  from all have "\<forall>k<length mps.
      measure bk n (mps ! k) sfc shots (sts' ! k) = Some (Inr (rs' ! k), sts' ! Suc k)"
    using sts rs by (auto simp: All_less_Suc2)
  then have "measured_in_turn bk n mps sfc shots sts' rs'"
    using sts rs by (simp add: measured_in_turn_iff)
  with sts rs 0 show "\<exists>s sts' r rs'. sts = s # sts' \<and> rs = r # rs' \<and> sts' \<noteq> [] \<and>
        measure bk n mp sfc shots s = Some (Inr r, sts' ! 0) \<and>
        measured_in_turn bk n mps sfc shots sts' rs'"
    by auto
next
  assume "\<exists>s sts' r rs'. sts = s # sts' \<and> rs = r # rs' \<and> sts' \<noteq> [] \<and>
        measure bk n mp sfc shots s = Some (Inr r, sts' ! 0) \<and>
        measured_in_turn bk n mps sfc shots sts' rs'"
  then obtain s sts' r rs' where h: "sts = s # sts'" "rs = r # rs'"
    "measure bk n mp sfc shots s = Some (Inr r, sts' ! 0)"
    "measured_in_turn bk n mps sfc shots sts' rs'"
    by blast
  then show "measured_in_turn bk n (mp # mps) sfc shots sts rs"
    by (auto simp: measured_in_turn_iff All_less_Suc2)
qed

lemma measure_each_in_turn:
  "measure_each bk n mps sfc shots st = Some (Inr rs, st') \<longleftrightarrow>
     (\<exists>sts. measured_in_turn bk n mps sfc shots sts rs \<and> sts ! 0 = st \<and> sts ! length mps = st')"
proof (induction mps arbitrary: st rs)
  case Nil
  show ?case
  proof
    assume "measure_each bk n [] sfc shots st = Some (Inr rs, st')"
    then have "measured_in_turn bk n [] sfc shots [st] rs \<and> [st] ! 0 = st \<and> [st] ! length ([]::'a measurement list) = st'"
      by (auto simp: measured_in_turn_Nil)
    then show "\<exists>sts. measured_in_turn bk n [] sfc shots sts rs \<and> sts ! 0 = st \<and> sts ! length ([]::'a measurement list) = st'"
      by blast
  next
    assume "\<exists>sts. measured_in_turn bk n [] sfc shots sts rs \<and> sts ! 0 = st \<and> sts ! length ([]::'a measurement list) = st'"
    then show "measure_each bk n [] sfc shots st = Some (Inr rs, st')"
      by (auto simp: measured_in_turn_Nil)
  qed
next
  case (Cons mp mps)
  show ?case
  proof
    assume a: "measure_each bk n (mp # mps) sfc shots st = Some (Inr rs, st')"
    then obtain r st1 where m: "measure bk n mp sfc shots st = Some (Inr r, st1)"
      by (auto split: option.splits sum.splits prod.splits)
    with a obtain rs' where e: "measure_each bk n mps sfc shots st1 = Some (Inr rs', st')"
      and rs: "rs = r # rs'"
      by (auto split: option.splits sum.splits prod.splits)
    from e Cons.IH obtain sts' where
      c: "measured_in_turn bk n mps sfc shots sts' rs'" "sts' ! 0 = st1" "sts' ! length mps = st'"
      by blast
    then have ne: "sts' \<noteq> []" by (auto simp: measured_in_turn_iff)
    have "measured_in_turn bk n (mp # mps) sfc shots (st # sts') rs"
      unfolding measured_in_turn_Cons using m rs c ne by auto
    then show "\<exists>sts. measured_in_turn bk n (mp # mps) sfc shots sts rs \<and> sts ! 0 = st \<and>
        sts ! length (mp # mps) = st'"
      using c by (intro exI [of _ "st # sts'"]) simp
  next
    assume "\<exists>sts. measured_in_turn bk n (mp # mps) sfc shots sts rs \<and> sts ! 0 = st \<and>
        sts ! length (mp # mps) = st'"
    then obtain sts where c: "measured_in_turn bk n (mp # mps) sfc shots sts rs"
      "sts ! 0 = st" "sts ! length (mp # mps) = st'"
      by blast
    from c(1) obtain s sts' r rs' where h: "sts = s # sts'" "rs = r # rs'"
      "measure bk n mp sfc shots s = Some (Inr r, sts' ! 0)"
      "measured_in_turn bk n mps sfc shots sts' rs'"
      unfolding measured_in_turn_Cons by blast
    have "sts' ! length mps = st'" using c(3) h(1) by simp
    with h(4) Cons.IH have "measure_each bk n mps sfc shots (sts' ! 0) = Some (Inr rs', st')"
      by blast
    then show "measure_each bk n (mp # mps) sfc shots st = Some (Inr rs, st')"
      using h c(2) by simp
  qed
qed

text \<open>
  Claim C10. With exactly one measurement, \<open>measure_final_state\<close> is the one call of
  \<open>measure\<close> for it: it ends, raises or returns as that call does, and what it returns is
  the call's value itself, not a tuple. With two or more measurements it returns exactly
  when the calls of \<open>measure\<close>, made one after the other in the order of the list on the
  same session, all return, and then it returns the tuple of their values in that order.
  In both cases the shot count is the circuit's, or one when it has none, and the
  circuit is printed before the return.
\<close>

theorem measure_final_state_results:
  "(measurements circuit = [mp] \<longrightarrow>
      measure_final_state bk self_circuit circuit sfc st =
        (case measure bk (length (op_wires self_circuit)) mp sfc (requested_shots circuit) st of
           None \<Rightarrow> None
         | Some (Inl e, st1) \<Rightarrow> Some (Inl e, st1)
         | Some (Inr r, st1) \<Rightarrow> Some (Inr r, print (PrintCircuit (sf_circuit st1)) st1)))
   \<and> (2 \<le> length (measurements circuit) \<longrightarrow>
        (measure_final_state bk self_circuit circuit sfc st = Some (Inr res, st'')) =
        (\<exists>rs sts. res = ResultTuple rs
           \<and> measured_in_turn bk (length (op_wires self_circuit)) (measurements circuit) sfc
                (requested_shots circuit) sts rs
           \<and> sts ! 0 = st
           \<and> st'' = print (PrintCircuit (sf_circuit (sts ! length (measurements circuit))))
                      (sts ! length (measurements circuit))))"
proof (intro conjI impI)
  assume "measurements circuit = [mp]"
  then show "measure_final_state bk self_circuit circuit sfc st =
        (case measure bk (length (op_wires self_circuit)) mp sfc (requested_shots circuit) st of
           None \<Rightarrow> None
         | Some (Inl e, st1) \<Rightarrow> Some (Inl e, st1)
         | Some (Inr r, st1) \<Rightarrow> Some (Inr r, print (PrintCircuit (sf_circuit st1)) st1))"
    by (simp add: measure_final_state_def requested_shots_def Let_def)
next
  let ?n = "length (op_wires self_circuit)"
  let ?mps = "measurements circuit"
  let ?each = "measure_each bk ?n ?mps sfc (requested_shots circuit) st"
  assume "2 \<le> length ?mps"
  then have ne: "length ?mps \<noteq> 1" by simp
  have mfs: "measure_final_state bk self_circuit circuit sfc st =
      (case ?each of
         None \<Rightarrow> None
       | Some (Inl e, st1) \<Rightarrow> Some (Inl e, st1)
       | Some (Inr rs, st1) \<Rightarrow>
           Some (Inr (ResultTuple rs), print (PrintCircuit (sf_circuit st1)) st1))"
    using ne
    by (simp add: measure_final_state_def requested_shots_def Let_def
        split: option.splits prod.splits sum.splits)
  have "(measure_final_state bk self_circuit circuit sfc st = Some (Inr res, st'')) =
      (\<exists>rs st1. ?each = Some (Inr rs, st1) \<and> res = ResultTuple rs
         \<and> st'' = print (PrintCircuit (sf_circuit st1)) st1)"
    unfolding mfs by (auto split: option.splits prod.splits sum.splits)
  also have "\<dots> = (\<exists>rs sts. res = ResultTuple rs
           \<and> measured_in_turn bk ?n ?mps sfc (requested_shots circuit) sts rs
           \<and> sts ! 0 = st
           \<and> st'' = print (PrintCircuit (sf_circuit (sts ! length ?mps))) (sts ! length ?mps))"
    unfolding measure_each_in_turn by blast
  finally show "(measure_final_state bk self_circuit circuit sfc st = Some (Inr res, st'')) =
        (\<exists>rs sts. res = ResultTuple rs
           \<and> measured_in_turn bk ?n ?mps sfc (requested_shots circuit) sts rs
           \<and> sts ! 0 = st
           \<and> st'' = print (PrintCircuit (sf_circuit (sts ! length ?mps))) (sts ! length ?mps))" .
qed

text \<open>
  The theorem at \<open>Hadamard(0)\<close> with \<open>counts()\<close> alone, and with \<open>counts()\<close> followed by
  \<open>probs(wires=[0])\<close>, no shot count given.
\<close>

theorem measure_final_state_results_witness:
  "map_option fst
     (measure_final_state example_backend (measured_script [counts_mp])
        (measured_script [counts_mp]) MainSfCircuit fresh_main) =
     Some (Inr (CountsDict [(''00'', 1)]))
   \<and> (\<exists>sts st''.
         measure_final_state example_backend (measured_script [counts_mp, probs_mp])
           (measured_script [counts_mp, probs_mp]) MainSfCircuit fresh_main =
         Some (Inr (ResultTuple [CountsDict [(''00'', 1)], Value 1]), st'')
       \<and> measured_in_turn example_backend 1 [counts_mp, probs_mp] MainSfCircuit 1 sts
            [CountsDict [(''00'', 1)], Value 1]
       \<and> sts ! 0 = fresh_main)"
proof -
  have s: "measurements (measured_script mps) = mps"
    "length (op_wires (measured_script mps)) = 1"
    "requested_shots (measured_script mps) = 1" for mps
    by (simp_all add: measured_script_def op_wires_def example_operation_def requested_shots_def)
  have m: "map_option fst (measure example_backend 1 counts_mp MainSfCircuit 1 fresh_main) =
      Some (Inr (CountsDict [(''00'', 1)]))"
    by code_simp
  note one = measure_final_state_results [where circuit = "measured_script [counts_mp]"
      and self_circuit = "measured_script [counts_mp]" and mp = counts_mp
      and bk = example_backend and sfc = MainSfCircuit and st = fresh_main, unfolded s]
  from one m have 1: "map_option fst
     (measure_final_state example_backend (measured_script [counts_mp])
        (measured_script [counts_mp]) MainSfCircuit fresh_main) =
     Some (Inr (CountsDict [(''00'', 1)]))"
    by (auto split: option.splits sum.splits prod.splits)
  have "map_option fst
     (measure_final_state example_backend (measured_script [counts_mp, probs_mp])
        (measured_script [counts_mp, probs_mp]) MainSfCircuit fresh_main) =
     Some (Inr (ResultTuple [CountsDict [(''00'', 1)], Value 1]))"
    by code_simp
  then obtain st'' where f:
    "measure_final_state example_backend (measured_script [counts_mp, probs_mp])
        (measured_script [counts_mp, probs_mp]) MainSfCircuit fresh_main =
     Some (Inr (ResultTuple [CountsDict [(''00'', 1)], Value 1]), st'')"
    by auto
  note two = measure_final_state_results [where circuit = "measured_script [counts_mp, probs_mp]"
      and self_circuit = "measured_script [counts_mp, probs_mp]"
      and bk = example_backend and sfc = MainSfCircuit and st = fresh_main
      and res = "ResultTuple [CountsDict [(''00'', 1)], Value 1]" and st'' = st'', unfolded s]
  from two f obtain sts where
    "measured_in_turn example_backend 1 [counts_mp, probs_mp] MainSfCircuit 1 sts
            [CountsDict [(''00'', 1)], Value 1]" "sts ! 0 = fresh_main"
    by auto
  with f 1 show ?thesis by blast
qed

subsection \<open>Measurements without handler\<close>

lemma measure_unhandled:
  assumes "unhandled mp"
  shows "measure bk wires_nb mp sfc shots st = Some (Inr ReturnedNotImplementedError, st)"
  using assms
  by (simp add: unhandled_def measure_def measure_SampleMP_def measure_ProbabilityMP_def
      measure_ExpectationMP_def measure_StateMeasurement_def)

lemma measure_each_length:
  "measure_each bk n mps sfc shots st = Some (Inr rs, st') \<Longrightarrow> length rs = length mps"
  by (induction mps arbitrary: st rs) (auto split: option.splits sum.splits prod.splits)

text \<open>The calls for a list of measurements are those for a front part, then those for the rest.\<close>

lemma measure_each_append:
  "measure_each bk n (xs @ ys) sfc shots st =
     (case measure_each bk n xs sfc shots st of
        None \<Rightarrow> None
      | Some (Inl e, st1) \<Rightarrow> Some (Inl e, st1)
      | Some (Inr rs1, st1) \<Rightarrow>
          (case measure_each bk n ys sfc shots st1 of
             None \<Rightarrow> None
           | Some (Inl e, st2) \<Rightarrow> Some (Inl e, st2)
           | Some (Inr rs2, st2) \<Rightarrow> Some (Inr (rs1 @ rs2), st2)))"
proof (induction xs arbitrary: st)
  case Nil
  show ?case by (simp split: option.splits sum.splits prod.splits)
next
  case (Cons x xs)
  show ?case
    by (simp add: Cons.IH split: option.splits sum.splits prod.splits)
qed

lemma measure_each_unhandled:
  assumes "unhandled mp"
  shows "(measure_each bk n (pre @ mp # post) sfc shots st = Some (Inr rs, st')) =
     (\<exists>rs1 rs2 st1.
        measure_each bk n pre sfc shots st = Some (Inr rs1, st1) \<and>
        measure_each bk n post sfc shots st1 = Some (Inr rs2, st') \<and>
        rs = rs1 @ ReturnedNotImplementedError # rs2)"
  by (auto simp: measure_each_append measure_unhandled [OF assms]
      split: option.splits sum.splits prod.splits)

lemma measure_final_state_several:
  assumes "length (measurements circuit) \<noteq> 1"
  shows "measure_final_state bk self_circuit circuit sfc st =
      (case measure_each bk (length (op_wires self_circuit)) (measurements circuit) sfc
              (requested_shots circuit) st of
         None \<Rightarrow> None
       | Some (Inl e, st1) \<Rightarrow> Some (Inl e, st1)
       | Some (Inr rs, st1) \<Rightarrow>
           Some (Inr (ResultTuple rs), print (PrintCircuit (sf_circuit st1)) st1))"
  using assms
  by (simp add: measure_final_state_def requested_shots_def Let_def
      split: option.splits prod.splits sum.splits)

text \<open>
  Claim C8, as amended. For a measurement that none of the five tests accepts,
  \<open>measure\<close> raises nothing: it returns the class \<open>NotImplementedError\<close> as its value and
  leaves the session as it was; requested alone, that class is what
  \<open>measure_final_state\<close> returns. In a request of two or more measurements that holds
  such a measurement, \<open>measure_final_state\<close> returns exactly when the calls of \<open>measure\<close>
  for the measurements before it and, on the session they leave, for the measurements
  after it all return; the tuple it returns then has the class \<open>NotImplementedError\<close> at
  the position of that measurement, between the values of those calls.
\<close>

theorem unhandled_measurement_returns_sentinel:
  assumes "unhandled mp"
  shows "measure bk wires_nb mp sfc shots st = Some (Inr ReturnedNotImplementedError, st)
     \<and> (measurements circuit = [mp] \<longrightarrow>
          measure_final_state bk self_circuit circuit sfc st0 =
            Some (Inr ReturnedNotImplementedError, print (PrintCircuit (sf_circuit st0)) st0))
     \<and> (measurements circuit = pre @ mp # post \<and> 2 \<le> length (measurements circuit) \<longrightarrow>
          (measure_final_state bk self_circuit circuit sfc st0 = Some (Inr res, st'')) =
          (\<exists>rs1 rs2 st1 st2.
             measure_each bk (length (op_wires self_circuit)) pre sfc
               (requested_shots circuit) st0 = Some (Inr rs1, st1)
           \<and> measure_each bk (length (op_wires self_circuit)) post sfc
               (requested_shots circuit) st1 = Some (Inr rs2, st2)
           \<and> length rs1 = length pre \<and> length rs2 = length post
           \<and> res = ResultTuple (rs1 @ ReturnedNotImplementedError # rs2)
           \<and> st'' = print (PrintCircuit (sf_circuit st2)) st2))"
proof (intro conjI impI)
  show "measure bk wires_nb mp sfc shots st = Some (Inr ReturnedNotImplementedError, st)"
    using assms by (rule measure_unhandled)
next
  assume "measurements circuit = [mp]"
  then show "measure_final_state bk self_circuit circuit sfc st0 =
            Some (Inr ReturnedNotImplementedError, print (PrintCircuit (sf_circuit st0)) st0)"
    by (simp add: measure_final_state_def Let_def measure_unhandled [OF assms])
next
  let ?n = "length (op_wires self_circuit)"
  let ?s = "requested_shots circuit"
  assume h: "measurements circuit = pre @ mp # post \<and> 2 \<le> length (measurements circuit)"
  have ne: "length (measurements circuit) \<noteq> 1"
    using conjunct2 [OF h] by linarith
  have "(measure_final_state bk self_circuit circuit sfc st0 = Some (Inr res, st'')) =
      (\<exists>rs st2. measure_each bk ?n (pre @ mp # post) sfc ?s st0 = Some (Inr rs, st2)
         \<and> res = ResultTuple rs \<and> st'' = print (PrintCircuit (sf_circuit st2)) st2)"
    unfolding measure_final_state_several [OF ne] using h
    by (auto split: option.splits prod.splits sum.splits)
  also have "\<dots> = (\<exists>rs1 rs2 st1 st2.
             measure_each bk ?n pre sfc ?s st0 = Some (Inr rs1, st1)
           \<and> measure_each bk ?n post sfc ?s st1 = Some (Inr rs2, st2)
           \<and> res = ResultTuple (rs1 @ ReturnedNotImplementedError # rs2)
           \<and> st'' = print (PrintCircuit (sf_circuit st2)) st2)"
    unfolding measure_each_unhandled [OF assms] by blast
  also have "\<dots> = (\<exists>rs1 rs2 st1 st2.
             measure_each bk ?n pre sfc ?s st0 = Some (Inr rs1, st1)
           \<and> measure_each bk ?n post sfc ?s st1 = Some (Inr rs2, st2)
           \<and> length rs1 = length pre \<and> length rs2 = length post
           \<and> res = ResultTuple (rs1 @ ReturnedNotImplementedError # rs2)
           \<and> st'' = print (PrintCircuit (sf_circuit st2)) st2)"
    using measure_each_length by blast
  finally show "(measure_final_state bk self_circuit circuit sfc st0 = Some (Inr res, st'')) =
          (\<exists>rs1 rs2 st1 st2.
             measure_each bk ?n pre sfc ?s st0 = Some (Inr rs1, st1)
           \<and> measure_each bk ?n post sfc ?s st1 = Some (Inr rs2, st2)
           \<and> length rs1 = length pre \<and> length rs2 = length post
           \<and> res = ResultTuple (rs1 @ ReturnedNotImplementedError # rs2)
           \<and> st'' = print (PrintCircuit (sf_circuit st2)) st2)" .
qed

text \<open>
  The theorem at the example measurement without handler, alone and followed by
  \<open>probs(wires=[0])\<close>.
\<close>

theorem unhandled_measurement_returns_sentinel_witness:
  "measure example_backend 1 unsupported_mp MainSfCircuit 1 measured_main =
     Some (Inr ReturnedNotImplementedError, measured_main)
   \<and> map_option fst
        (measure_final_state example_backend unsupported_first_script unsupported_first_script
           MainSfCircuit fresh_main) =
       Some (Inr (ResultTuple [ReturnedNotImplementedError, Value 1]))"
proof -
  have u: "unhandled unsupported_mp" by (simp add: unhandled_def unsupported_mp_def)
  have s: "measurements unsupported_first_script = [] @ unsupported_mp # [probs_mp]
      \<and> 2 \<le> length (measurements unsupported_first_script)"
    "length (op_wires unsupported_first_script) = 1"
    "requested_shots unsupported_first_script = 1"
    by (simp_all add: unsupported_first_script_def measured_script_def op_wires_def
        example_operation_def requested_shots_def)
  note t = unhandled_measurement_returns_sentinel [OF u, where circuit = unsupported_first_script
      and self_circuit = unsupported_first_script and pre = "[]" and post = "[probs_mp]"
      and bk = example_backend and sfc = MainSfCircuit and ?st0.0 = fresh_main]
  have "map_option fst (measure_each example_backend 1 [probs_mp] MainSfCircuit 1 fresh_main) =
      Some (Inr [Value 1])"
    by code_simp
  then obtain st2 where
    p: "measure_each example_backend 1 [probs_mp] MainSfCircuit 1 fresh_main =
          Some (Inr [Value 1], st2)"
    by auto
  have e: "measure_each example_backend 1 [] MainSfCircuit 1 fresh_main = Some (Inr [], fresh_main)"
    by simp
  from t have "measure_final_state example_backend unsupported_first_script
      unsupported_first_script MainSfCircuit fresh_main =
      Some (Inr (ResultTuple ([] @ ReturnedNotImplementedError # [Value 1])),
            print (PrintCircuit (sf_circuit st2)) st2)"
    using s(1) p e unfolding s(2) s(3) by fastforce
  then have 2: "map_option fst
        (measure_final_state example_backend unsupported_first_script unsupported_first_script
           MainSfCircuit fresh_main) =
       Some (Inr (ResultTuple [ReturnedNotImplementedError, Value 1]))"
    by simp
  from t have "measure example_backend 1 unsupported_mp MainSfCircuit 1 measured_main =
     Some (Inr ReturnedNotImplementedError, measured_main)"
    by blast
  with 2 show ?thesis by blast
qed

text \<open>
  Claim C8 as stated fails: for \<open>probs(wires=[0])\<close> followed by a measurement without
  handler, \<open>measure_final_state\<close> raises nothing and returns a tuple that holds the
  probabilities and, next to them, the class \<open>NotImplementedError\<close>.
\<close>

theorem unhandled_measurement_not_an_error:
  "unhandled unsupported_mp
   \<and> map_option fst
        (measure_final_state example_backend (measured_script [probs_mp, unsupported_mp])
           (measured_script [probs_mp, unsupported_mp]) MainSfCircuit fresh_main) =
       Some (Inr (ResultTuple [Value 1, ReturnedNotImplementedError]))
   \<and> map_option fst (measure example_backend 1 unsupported_mp MainSfCircuit 1 fresh_main) =
       Some (Inr ReturnedNotImplementedError)"
  by code_simp

end
